theory Spec2Isabelle
  imports Main "HOL-Library.Word"
begin

unbundle bit_operations_syntax

section \<open>Stream formats (common/v4l2/stream_format.cpp)\<close>

text \<open>
  A \<open>StreamFormat\<close> holds four \<open>uint32_t\<close> members: the V4L2 buffer type, the fourcc
  and the resolution. The selectors carry the prefix \<open>sf_\<close> in place of the trailing
  underscore of the C++ member names.
\<close>

record StreamFormat =
  sf_type :: "32 word"
  sf_v4l2_pixel_format :: "32 word"
  sf_width :: "32 word"
  sf_height :: "32 word"

type_synonym StreamFormats = "StreamFormat list"

text \<open>
  \<open>FindFormatByResolution\<close> walks the vector from index 0 and returns the index of the
  first entry with the wanted resolution, or -1. The index variable of the \<open>for\<close> loop
  is the first argument of the auxiliary function.
\<close>

fun FindFormatByResolution_from ::
  "nat \<Rightarrow> StreamFormats \<Rightarrow> 32 word \<Rightarrow> 32 word \<Rightarrow> int" where
  "FindFormatByResolution_from i [] width height = - 1"
| "FindFormatByResolution_from i (format # formats) width height =
     (if sf_width format = width \<and> sf_height format = height then int i
      else FindFormatByResolution_from (Suc i) formats width height)"

definition FindFormatByResolution :: "StreamFormats \<Rightarrow> 32 word \<Rightarrow> 32 word \<Rightarrow> int" where
  "FindFormatByResolution formats width height =
     FindFormatByResolution_from 0 formats width height"

text \<open>
  \<open>GetQualifiedStreams\<close>: the outer loop runs over the qualified fourccs in priority
  order, the inner loop over the supported streams; \<open>qualified_streams\<close> is the vector
  being built (\<open>push_back\<close> appends). The duplicate test is written as in the source:
  the stream is skipped when \<open>FindFormatByResolution(...) > 0\<close>.
\<close>

fun GetQualifiedStreams_inner ::
  "32 word \<Rightarrow> StreamFormats \<Rightarrow> StreamFormats \<Rightarrow> StreamFormats" where
  "GetQualifiedStreams_inner qualified_format [] qualified_streams = qualified_streams"
| "GetQualifiedStreams_inner qualified_format (supported_stream # rest) qualified_streams =
     (if sf_v4l2_pixel_format supported_stream \<noteq> qualified_format
      then GetQualifiedStreams_inner qualified_format rest qualified_streams
      else if FindFormatByResolution qualified_streams
                (sf_width supported_stream) (sf_height supported_stream) > 0
      then GetQualifiedStreams_inner qualified_format rest qualified_streams
      else GetQualifiedStreams_inner qualified_format rest
             (qualified_streams @ [supported_stream]))"

fun GetQualifiedStreams_outer ::
  "32 word list \<Rightarrow> StreamFormats \<Rightarrow> StreamFormats \<Rightarrow> StreamFormats" where
  "GetQualifiedStreams_outer [] supported_streams qualified_streams = qualified_streams"
| "GetQualifiedStreams_outer (qualified_format # rest) supported_streams qualified_streams =
     GetQualifiedStreams_outer rest supported_streams
       (GetQualifiedStreams_inner qualified_format supported_streams qualified_streams)"

definition GetQualifiedStreams :: "32 word list \<Rightarrow> StreamFormats \<Rightarrow> StreamFormats" where
  "GetQualifiedStreams qualified_formats supported_streams =
     GetQualifiedStreams_outer qualified_formats supported_streams []"

text \<open>The fourcc codes of linux/videodev2.h used below (\<open>v4l2_fourcc(a, b, c, d)\<close>).\<close>

definition V4L2_PIX_FMT_YUYV :: "32 word" where "V4L2_PIX_FMT_YUYV = 0x56595559"
definition V4L2_PIX_FMT_MJPEG :: "32 word" where "V4L2_PIX_FMT_MJPEG = 0x47504A4D"
definition V4L2_PIX_FMT_JPEG :: "32 word" where "V4L2_PIX_FMT_JPEG = 0x4745504A"
definition V4L2_PIX_FMT_YUV420 :: "32 word" where "V4L2_PIX_FMT_YUV420 = 0x32315559"
definition V4L2_PIX_FMT_YVU420 :: "32 word" where "V4L2_PIX_FMT_YVU420 = 0x32315659"
definition V4L2_PIX_FMT_NV21 :: "32 word" where "V4L2_PIX_FMT_NV21 = 0x3132564E"
definition V4L2_PIX_FMT_BGR32 :: "32 word" where "V4L2_PIX_FMT_BGR32 = 0x34524742"
definition V4L2_PIX_FMT_RGB32 :: "32 word" where "V4L2_PIX_FMT_RGB32 = 0x34424752"
definition V4L2_BUF_TYPE_VIDEO_CAPTURE :: "32 word" where "V4L2_BUF_TYPE_VIDEO_CAPTURE = 1"

section \<open>Capture tracker (device/3.2/camera_tracker.cpp)\<close>

text \<open>
  The HIDL types of android.hardware.camera.device@3.2 that the tracker stores. A
  \<open>handle\<close> (\<open>buffer_handle_t\<close>, \<open>hidl_handle\<close>) is \<open>None\<close> for \<open>nullptr\<close>.
  \<open>streamId\<close> is an \<open>int32_t\<close>: the word \<open>- 1\<close> is the value -1. Camera metadata is
  the byte blob that the HIDL type \<open>CameraMetadata\<close> is.
\<close>

datatype BufferStatus = BufferStatus_OK | BufferStatus_ERROR

type_synonym handle = "nat option"

type_synonym CameraMetadata = "8 word list"

record StreamBuffer =
  streamId :: "32 word"
  bufferId :: "64 word"
  buffer :: handle
  status :: BufferStatus
  acquireFence :: handle
  releaseFence :: handle

record CaptureRequest =
  frameNumber :: "32 word"
  fmqSettingsSize :: "64 word"
  settings :: CameraMetadata
  inputBuffer :: StreamBuffer
  outputBuffers :: "StreamBuffer list"

datatype StreamType = OUTPUT | INPUT

datatype StreamRotation = ROTATION_0 | ROTATION_90 | ROTATION_180 | ROTATION_270

record Stream =
  stream_id :: "32 word"
  streamType :: StreamType
  stream_width :: "32 word"
  stream_height :: "32 word"
  stream_format :: "32 word"
  stream_usage :: "64 word"
  dataSpace :: "32 word"
  rotation :: StreamRotation

text \<open>
  \<open>TrackedCapture\<close>: \<open>output_buffers\<close> is a \<open>std::queue\<close>, its front the head of the
  list, \<open>push\<close> appending at the end. \<open>tc_id\<close> is the member \<open>id\<close>.
  \<open>TrackedSettings\<close> holds a shared pointer, \<open>None\<close> when null.
\<close>

record TrackedCapture =
  tc_id :: "32 word"
  output_buffers :: "StreamBuffer list"
  input_buffer :: StreamBuffer
  output_results :: "StreamBuffer list"
  input_result :: StreamBuffer

record TrackedSettings =
  ts_settings :: "CameraMetadata option"
  partial_count :: "32 word"

record CameraTracker =
  tracked_streams :: "32 word \<rightharpoonup> Stream"
  stream_buffers :: "32 word \<rightharpoonup> (64 word \<rightharpoonup> handle)"
  capture_list :: "TrackedCapture list"
  tracked_settings :: "32 word \<rightharpoonup> TrackedSettings"

text \<open>\<open>PixelFormat::IMPLEMENTATION_DEFINED\<close> is 0x22 in graphics.common@1.0.\<close>

definition InvalidStream :: Stream where
  "InvalidStream = \<lparr>stream_id = - 1, streamType = OUTPUT, stream_width = 0,
     stream_height = 0, stream_format = 0x22, stream_usage = 0, dataSpace = 0,
     rotation = ROTATION_0\<rparr>"

definition InvalidStreamBuffer :: StreamBuffer where
  "InvalidStreamBuffer = \<lparr>streamId = - 1, bufferId = 0, buffer = None,
     status = BufferStatus_ERROR, acquireFence = None, releaseFence = None\<rparr>"

definition getStream :: "CameraTracker \<Rightarrow> 32 word \<Rightarrow> Stream" where
  "getStream t i = (case tracked_streams t i of None \<Rightarrow> InvalidStream | Some s \<Rightarrow> s)"

text \<open>
  \<open>trackCapture\<close>: \<open>tracked_capture_of\<close> is the local \<open>tracked_capture\<close> once the loop
  over the output buffers and the test of the input buffer are done. The function
  returns the \<open>uint32_t capture_id\<close> as an \<open>int\<close>, which reads the 32 bits as two's
  complement (\<open>sint\<close>).
\<close>

definition tracked_capture_of :: "CaptureRequest \<Rightarrow> TrackedCapture" where
  "tracked_capture_of request =
     \<lparr>tc_id = frameNumber request,
      output_buffers = map (\<lambda>stream_buffer. stream_buffer\<lparr>buffer := None\<rparr>)
                         (outputBuffers request),
      input_buffer = (if streamId (inputBuffer request) \<noteq> - 1
                      then (inputBuffer request)\<lparr>buffer := None\<rparr>
                      else InvalidStreamBuffer),
      output_results = [],
      input_result = InvalidStreamBuffer\<rparr>"

definition trackCapture :: "CameraTracker \<Rightarrow> CaptureRequest \<Rightarrow> int \<times> CameraTracker" where
  "trackCapture t request =
     (sint (frameNumber request),
      t\<lparr>capture_list := capture_list t @ [tracked_capture_of request]\<rparr>)"

definition hasActiveCapture :: "CameraTracker \<Rightarrow> bool" where
  "hasActiveCapture t = (length (capture_list t) > 0)"

text \<open>
  \<open>popNextOutputBuffer\<close> returns the popped buffer, the value written through
  \<open>capture_id\<close> (every caller passes a non-null pointer) and the updated list.
\<close>

fun popNextOutputBuffer_list ::
  "TrackedCapture list \<Rightarrow> StreamBuffer \<times> int \<times> TrackedCapture list" where
  "popNextOutputBuffer_list [] = (InvalidStreamBuffer, - 1, [])"
| "popNextOutputBuffer_list (capture # rest) =
     (case output_buffers capture of
        res # remaining \<Rightarrow>
          (res, sint (tc_id capture), capture\<lparr>output_buffers := remaining\<rparr> # rest)
      | [] \<Rightarrow>
          (case popNextOutputBuffer_list rest of
             (res, capture_id, rest') \<Rightarrow> (res, capture_id, capture # rest')))"

definition popNextOutputBuffer :: "CameraTracker \<Rightarrow> StreamBuffer \<times> int \<times> CameraTracker" where
  "popNextOutputBuffer t =
     (case popNextOutputBuffer_list (capture_list t) of
        (res, capture_id, l) \<Rightarrow> (res, capture_id, t\<lparr>capture_list := l\<rparr>))"

fun saveOutputBuffer_list ::
  "TrackedCapture list \<Rightarrow> StreamBuffer \<Rightarrow> 32 word \<Rightarrow> int \<times> TrackedCapture list" where
  "saveOutputBuffer_list [] stream_buffer capture_id = (- 1, [])"
| "saveOutputBuffer_list (capture # rest) stream_buffer capture_id =
     (if tc_id capture = capture_id
      then (0, capture\<lparr>output_results := output_results capture @ [stream_buffer]\<rparr> # rest)
      else (case saveOutputBuffer_list rest stream_buffer capture_id of
              (r, rest') \<Rightarrow> (r, capture # rest')))"

definition saveOutputBuffer ::
  "CameraTracker \<Rightarrow> StreamBuffer \<Rightarrow> 32 word \<Rightarrow> int \<times> CameraTracker" where
  "saveOutputBuffer t stream_buffer capture_id =
     (case saveOutputBuffer_list (capture_list t) stream_buffer capture_id of
        (r, l) \<Rightarrow> (r, t\<lparr>capture_list := l\<rparr>))"

fun isCaptureCompleted_list :: "TrackedCapture list \<Rightarrow> 32 word \<Rightarrow> int" where
  "isCaptureCompleted_list [] capture_id = - 1"
| "isCaptureCompleted_list (capture # rest) capture_id =
     (if tc_id capture = capture_id
      then (if length (output_buffers capture) = 0 \<and> streamId (input_buffer capture) = - 1
            then 1 else 0)
      else isCaptureCompleted_list rest capture_id)"

definition isCaptureCompleted :: "CameraTracker \<Rightarrow> 32 word \<Rightarrow> int" where
  "isCaptureCompleted t capture_id = isCaptureCompleted_list (capture_list t) capture_id"

fun popOutputResults_list ::
  "TrackedCapture list \<Rightarrow> 32 word \<Rightarrow> StreamBuffer list \<times> TrackedCapture list" where
  "popOutputResults_list [] capture_id = ([], [])"
| "popOutputResults_list (capture # rest) capture_id =
     (if tc_id capture = capture_id
      then (output_results capture, capture\<lparr>output_results := []\<rparr> # rest)
      else (case popOutputResults_list rest capture_id of
              (res, rest') \<Rightarrow> (res, capture # rest')))"

definition popOutputResults ::
  "CameraTracker \<Rightarrow> 32 word \<Rightarrow> StreamBuffer list \<times> CameraTracker" where
  "popOutputResults t capture_id =
     (case popOutputResults_list (capture_list t) capture_id of
        (res, l) \<Rightarrow> (res, t\<lparr>capture_list := l\<rparr>))"

fun popInputResult_list ::
  "TrackedCapture list \<Rightarrow> 32 word \<Rightarrow> StreamBuffer \<times> TrackedCapture list" where
  "popInputResult_list [] capture_id = (InvalidStreamBuffer, [])"
| "popInputResult_list (capture # rest) capture_id =
     (if tc_id capture = capture_id
      then (input_result capture, capture\<lparr>input_result := InvalidStreamBuffer\<rparr> # rest)
      else (case popInputResult_list rest capture_id of
              (res, rest') \<Rightarrow> (res, capture # rest')))"

definition popInputResult :: "CameraTracker \<Rightarrow> 32 word \<Rightarrow> StreamBuffer \<times> CameraTracker" where
  "popInputResult t capture_id =
     (case popInputResult_list (capture_list t) capture_id of
        (res, l) \<Rightarrow> (res, t\<lparr>capture_list := l\<rparr>))"

definition setCaptureSettings ::
  "CameraTracker \<Rightarrow> 32 word \<Rightarrow> CameraMetadata option \<Rightarrow> int \<times> CameraTracker" where
  "setCaptureSettings t capture_id s =
     (case tracked_settings t capture_id of
        None \<Rightarrow>
          (0, t\<lparr>tracked_settings := (tracked_settings t)
                   (capture_id \<mapsto> \<lparr>ts_settings = s, partial_count = 1\<rparr>)\<rparr>)
      | Some res \<Rightarrow>
          (0, t\<lparr>tracked_settings := (tracked_settings t)
                   (capture_id \<mapsto> \<lparr>ts_settings = s,
                                      partial_count = partial_count res + 1\<rparr>)\<rparr>))"

text \<open>
  \<open>getCaptureSettings\<close> returns the shared pointer (null when the id has no entry) and
  the value left in \<open>*partial_count\<close>, which the caller initialised to 0.
\<close>

definition getCaptureSettings ::
  "CameraTracker \<Rightarrow> 32 word \<Rightarrow> CameraMetadata option \<times> 32 word" where
  "getCaptureSettings t capture_id =
     (case tracked_settings t capture_id of
        None \<Rightarrow> (None, 0)
      | Some s \<Rightarrow> (ts_settings s, partial_count s))"

fun untrackCapture_list :: "TrackedCapture list \<Rightarrow> 32 word \<Rightarrow> TrackedCapture list" where
  "untrackCapture_list [] capture_id = []"
| "untrackCapture_list (capture # rest) capture_id =
     (if tc_id capture = capture_id then rest
      else capture # untrackCapture_list rest capture_id)"

definition untrackCapture :: "CameraTracker \<Rightarrow> 32 word \<Rightarrow> int \<times> CameraTracker" where
  "untrackCapture t capture_id =
     (0, t\<lparr>capture_list := untrackCapture_list (capture_list t) capture_id,
           tracked_settings := (tracked_settings t)(capture_id := None)\<rparr>)"

definition clearCaptures :: "CameraTracker \<Rightarrow> CameraTracker" where
  "clearCaptures t = t\<lparr>capture_list := [], tracked_settings := Map.empty\<rparr>"

section \<open>Frame buffers (common/arc/frame_buffer.cpp)\<close>

text \<open>
  \<open>size_t\<close> is the word type \<open>'z word\<close>: 32 bits wide on the ARMv7 targets and 64 bits
  wide on the ARMv8 ones, so its width stays a parameter. Return codes are C \<open>int\<close>s,
  written as integers; the errno values are those of Linux.
\<close>

definition EINVAL :: int where "EINVAL = 22"
definition ENODEV :: int where "ENODEV = 19"

text \<open>
  \<open>FrameBuffer\<close> is the base class. \<open>fb_kind\<close> is the dynamic type of the object, which
  selects the override of the virtual \<open>SetDataSize\<close>: only \<open>AllocatedFrameBuffer\<close>
  overrides it. \<open>fb_data\<close> holds the bytes that \<open>data_\<close> points to.
\<close>

datatype FrameBufferKind =
  AllocatedFrameBuffer_object | V4L2FrameBuffer_object | GrallocFrameBuffer_object

record (overloaded) ('z :: len) FrameBuffer =
  fb_kind :: FrameBufferKind
  fb_data :: "8 word list"
  data_size :: "'z word"
  buffer_size :: "'z word"
  fb_width :: "32 word"
  fb_height :: "32 word"
  fourcc :: "32 word"

definition FrameBuffer_SetDataSize ::
  "('z :: len) FrameBuffer \<Rightarrow> 'z word \<Rightarrow> int \<times> 'z FrameBuffer" where
  "FrameBuffer_SetDataSize fb new_size =
     (if new_size > buffer_size fb then (- EINVAL, fb)
      else (0, fb\<lparr>data_size := new_size\<rparr>))"

text \<open>
  \<open>new uint8_t[size]\<close> either gives an array of exactly \<open>size\<close> bytes or throws
  \<open>std::bad_alloc\<close>. Which of the two happens is decided by the allocator, which is
  outside the model: \<open>heap size = None\<close> when the allocation of \<open>size\<close> bytes fails, and
  \<open>heap size = Some init\<close> when it succeeds, \<open>init i\<close> being the byte found at index \<open>i\<close>
  of the new array (the bytes of a new array are not initialised).
\<close>

datatype exception = bad_alloc

type_synonym 'z allocator = "'z word \<Rightarrow> (nat \<Rightarrow> 8 word) option"

definition new_uint8_array :: "('z :: len) allocator \<Rightarrow> 'z word \<Rightarrow> exception + 8 word list" where
  "new_uint8_array heap count =
     (case heap count of
        None \<Rightarrow> Inl bad_alloc
      | Some init \<Rightarrow> Inr (map init [0..<unat count]))"

text \<open>
  A call that may throw ends in \<open>Inl (e, fb)\<close>, the exception with the frame as the throw
  leaves it, or in \<open>Inr (r, fb)\<close>, the returned code with the frame after the call.
  Nothing in the repository catches the exception.

  \<open>AllocatedFrameBuffer::SetDataSize\<close> replaces the backing array by \<open>new uint8_t[size]\<close>
  when the size exceeds the capacity. The array is allocated before \<open>buffer_.reset\<close> is
  entered, so a failed allocation leaves every member as it was.
\<close>

type_synonym 'z outcome = "(exception \<times> 'z FrameBuffer) + (int \<times> 'z FrameBuffer)"

definition AllocatedFrameBuffer_SetDataSize ::
  "('z :: len) allocator \<Rightarrow> 'z FrameBuffer \<Rightarrow> 'z word \<Rightarrow> 'z outcome" where
  "AllocatedFrameBuffer_SetDataSize heap fb new_size =
     (if new_size > buffer_size fb then
        (case new_uint8_array heap new_size of
           Inl e \<Rightarrow> Inl (e, fb)
         | Inr array \<Rightarrow>
             Inr (0, fb\<lparr>fb_data := array, buffer_size := new_size, data_size := new_size\<rparr>))
      else Inr (0, fb\<lparr>data_size := new_size\<rparr>))"

definition SetDataSize ::
  "('z :: len) allocator \<Rightarrow> 'z FrameBuffer \<Rightarrow> 'z word \<Rightarrow> 'z outcome" where
  "SetDataSize heap fb new_size =
     (case fb_kind fb of
        AllocatedFrameBuffer_object \<Rightarrow> AllocatedFrameBuffer_SetDataSize heap fb new_size
      | _ \<Rightarrow> Inr (FrameBuffer_SetDataSize fb new_size))"

section \<open>Image processor (common/arc/image_processor.cpp)\<close>

definition Align16 :: "('z :: len) word \<Rightarrow> 'z word" where
  "Align16 v = (v + 15) AND NOT 15"

text \<open>
  \<open>GetConvertedSize\<close>: \<open>width\<close> and \<open>height\<close> are \<open>uint32_t\<close>, so the products of the
  YU12/NV21 and RGB cases are computed on 32 bits and then widened to \<open>size_t\<close>; the
  YV12 case multiplies in \<open>size_t\<close>, the type of \<open>Align16\<close>.
\<close>

definition GetConvertedSize :: "32 word \<Rightarrow> 32 word \<Rightarrow> 32 word \<Rightarrow> ('z :: len) word" where
  "GetConvertedSize fcc width height =
     (if width mod 2 \<noteq> 0 \<or> height mod 2 \<noteq> 0 then 0
      else if fcc = V4L2_PIX_FMT_YVU420
        then Align16 (ucast width) * ucast height + Align16 (ucast (width div 2)) * ucast height
      else if fcc = V4L2_PIX_FMT_YUV420 \<or> fcc = V4L2_PIX_FMT_NV21
        then ucast (width * height * 3 div 2)
      else if fcc = V4L2_PIX_FMT_BGR32 \<or> fcc = V4L2_PIX_FMT_RGB32
        then ucast (width * height * 4)
      else 0)"

text \<open>
  The routines that move pixels (libyuv, \<open>memcpy\<close>, the NV21 interleaving loop, the JPEG
  encoder) are outside the model: \<open>lib routine metadata in_frame out_frame\<close> gives the
  routine's return value and the bytes it leaves in the output buffer. None of them
  touches another member of the output frame.
\<close>

datatype routine =
  lib_YUY2ToI420 | lib_I420Copy | lib_memcpy | loop_YU12ToNV21 | lib_I420ToABGR
  | lib_I420ToARGB | lib_MJPGToI420 | lib_ConvertToJpeg

type_synonym 'z pixel_lib =
  "routine \<Rightarrow> CameraMetadata \<Rightarrow> 'z FrameBuffer \<Rightarrow> 'z FrameBuffer \<Rightarrow> int \<times> 8 word list"

text \<open>C++ integer division truncates towards zero.\<close>

definition c_div :: "int \<Rightarrow> int \<Rightarrow> int" where
  "c_div a b = sgn a * sgn b * (\<bar>a\<bar> div \<bar>b\<bar>)"

definition call_lib ::
  "('z :: len) pixel_lib \<Rightarrow> routine \<Rightarrow> CameraMetadata \<Rightarrow> 'z FrameBuffer \<Rightarrow> 'z FrameBuffer
     \<Rightarrow> int \<times> 'z FrameBuffer" where
  "call_lib lib r metadata in_frame out_frame =
     (case lib r metadata in_frame out_frame of
        (res, bytes) \<Rightarrow> (if res \<noteq> 0 then - EINVAL else 0, out_frame\<lparr>fb_data := bytes\<rparr>))"

text \<open>
  \<open>YU12ToYV12\<close> and \<open>YU12ToNV21\<close> take the frame size as \<open>int\<close>; the strides come from
  \<open>Align16\<close> narrowed to \<open>int\<close>. Their own return value is mapped by the caller to
  \<open>-EINVAL\<close> or 0.
\<close>

definition YU12ToYV12 ::
  "('z :: len) pixel_lib \<Rightarrow> CameraMetadata \<Rightarrow> 'z FrameBuffer \<Rightarrow> 'z FrameBuffer
     \<Rightarrow> int \<times> 'z FrameBuffer" where
  "YU12ToYV12 lib metadata in_frame out_frame =
     (let width = sint (fb_width in_frame);
          height = sint (fb_height in_frame);
          dst_stride_y = sint (ucast (Align16 (ucast (fb_width in_frame) :: 'z word)) :: 32 word);
          dst_stride_uv =
            sint (ucast (Align16 (ucast (fb_width in_frame div 2) :: 'z word)) :: 32 word)
      in if odd width \<or> odd height then (- EINVAL, out_frame)
         else if dst_stride_y < width \<or> dst_stride_uv < c_div width 2 then (- EINVAL, out_frame)
         else call_lib lib lib_I420Copy metadata in_frame out_frame)"

definition YU12ToNV21 ::
  "('z :: len) pixel_lib \<Rightarrow> CameraMetadata \<Rightarrow> 'z FrameBuffer \<Rightarrow> 'z FrameBuffer
     \<Rightarrow> int \<times> 'z FrameBuffer" where
  "YU12ToNV21 lib metadata in_frame out_frame =
     (if odd (sint (fb_width in_frame)) \<or> odd (sint (fb_height in_frame))
      then (- EINVAL, out_frame)
      else (0, out_frame\<lparr>fb_data := snd (lib loop_YU12ToNV21 metadata in_frame out_frame)\<rparr>))"

text \<open>
  \<open>ConvertFormat\<close> calls the virtual \<open>SetDataSize\<close> of the output frame; an exception
  thrown there leaves \<open>ConvertFormat\<close> too.
\<close>

definition ConvertFormat ::
  "('z :: len) pixel_lib \<Rightarrow> 'z allocator \<Rightarrow> CameraMetadata \<Rightarrow> 'z FrameBuffer
     \<Rightarrow> 'z FrameBuffer \<Rightarrow> 'z outcome" where
  "ConvertFormat lib heap metadata in_frame out_frame =
     (if fb_width in_frame mod 2 \<noteq> 0 \<or> fb_height in_frame mod 2 \<noteq> 0
      then Inr (- EINVAL, out_frame)
      else
        (case SetDataSize heap out_frame
                (GetConvertedSize (fourcc out_frame) (fb_width in_frame) (fb_height in_frame)) of
           Inl thrown \<Rightarrow> Inl thrown
         | Inr (r, out) \<Rightarrow> Inr (
             if r \<noteq> 0 then (- EINVAL, out)
             else if fourcc in_frame = V4L2_PIX_FMT_YUYV then
               (if fourcc out = V4L2_PIX_FMT_YUV420
                then call_lib lib lib_YUY2ToI420 metadata in_frame out
                else (- EINVAL, out))
             else if fourcc in_frame = V4L2_PIX_FMT_YUV420 then
               (if fourcc out = V4L2_PIX_FMT_YVU420 then
                  (case YU12ToYV12 lib metadata in_frame out of
                     (res, out') \<Rightarrow> (if res \<noteq> 0 then - EINVAL else 0, out'))
                else if fourcc out = V4L2_PIX_FMT_YUV420 then
                  (0, out\<lparr>fb_data := snd (lib lib_memcpy metadata in_frame out)\<rparr>)
                else if fourcc out = V4L2_PIX_FMT_NV21 then
                  (case YU12ToNV21 lib metadata in_frame out of
                     (res, out') \<Rightarrow> (if res \<noteq> 0 then - EINVAL else 0, out'))
                else if fourcc out = V4L2_PIX_FMT_BGR32 then
                  call_lib lib lib_I420ToABGR metadata in_frame out
                else if fourcc out = V4L2_PIX_FMT_RGB32 then
                  call_lib lib lib_I420ToARGB metadata in_frame out
                else if fourcc out = V4L2_PIX_FMT_JPEG then
                  (case lib lib_ConvertToJpeg metadata in_frame out of
                     (res, bytes) \<Rightarrow>
                       (if res = 0 then - EINVAL else 0, out\<lparr>fb_data := bytes\<rparr>))
                else (- EINVAL, out))
             else if fourcc in_frame = V4L2_PIX_FMT_MJPEG then
               (if fourcc out = V4L2_PIX_FMT_YUV420
                then call_lib lib lib_MJPGToI420 metadata in_frame out
                else (- EINVAL, out))
             else (- EINVAL, out))))"

section \<open>Cached frame (common/arc/cached_frame.cpp)\<close>

text \<open>
  \<open>CropRotateScale\<close> works on the cached YU12 frame. Its local variables are C \<open>int\<close>s
  computed from \<open>uint32_t\<close> dimensions: an unsigned product wraps, a division by zero
  and a signed overflow have no defined result and are reported as a \<open>fault\<close> (as is,
  further down, the dereference of a null pointer).
  The two libyuv calls are recorded with the geometry they receive; \<open>yuv call frame\<close>
  is the library's return value and, for the scaling call, the bytes it leaves in the
  YU12 buffer.
\<close>

datatype fault = DivisionByZero | SignedOverflow | NullPointerDereference







record (overloaded) ('z :: len) CachedFrame =
  cropped_buffer_capacity :: "'z word"
  yu12_frame :: "'z FrameBuffer"



section \<open>Device connection (common/v4l2/v4l2_wrapper.cpp)\<close>

text \<open>
  \<open>v4l2_format\<close> keeps the members of the kernel structure that the wrapper reads or
  writes. \<open>FillFormatRequest\<close> zeroes the structure and sets four of them; the
  constructor \<open>StreamFormat(const v4l2_format&)\<close> reads the same four back, and
  \<open>operator==\<close> compares those four members.
\<close>

record v4l2_format =
  fmt_type :: "32 word"
  pix_width :: "32 word"
  pix_height :: "32 word"
  pix_pixelformat :: "32 word"
  pix_sizeimage :: "32 word"

definition FillFormatRequest :: "StreamFormat \<Rightarrow> v4l2_format" where
  "FillFormatRequest f =
     \<lparr>fmt_type = sf_type f, pix_width = sf_width f, pix_height = sf_height f,
      pix_pixelformat = sf_v4l2_pixel_format f, pix_sizeimage = 0\<rparr>"

definition StreamFormat_of_v4l2_format :: "v4l2_format \<Rightarrow> StreamFormat" where
  "StreamFormat_of_v4l2_format format =
     \<lparr>sf_type = fmt_type format, sf_v4l2_pixel_format = pix_pixelformat format,
      sf_width = pix_width format, sf_height = pix_height format\<rparr>"

definition StreamFormat_eq :: "StreamFormat \<Rightarrow> StreamFormat \<Rightarrow> bool" where
  "StreamFormat_eq a b =
     (sf_type a = sf_type b \<and> sf_v4l2_pixel_format a = sf_v4l2_pixel_format b
      \<and> sf_width a = sf_width b \<and> sf_height a = sf_height b)"

text \<open>
  The wrapper's members, and \<open>commands\<close>, the device commands issued so far (a trace
  kept by the model). \<open>driver\<close> is the device's answer to \<open>VIDIOC_S_FMT\<close>: the value
  \<open>ioctl\<close> returns and the structure as the driver leaves it; \<open>streamoff\<close> is its
  answer to \<open>VIDIOC_STREAMOFF\<close>.
\<close>

datatype device_command = VIDIOC_S_FMT v4l2_format | VIDIOC_STREAMOFF "32 word"

record V4L2Wrapper =
  device_fd :: int
  format_opt :: "StreamFormat option"
  wrapper_buffer_size :: "32 word"
  commands :: "device_command list"

definition Connected :: "V4L2Wrapper \<Rightarrow> bool" where
  "Connected w = (device_fd w \<ge> 0)"

definition ioctlLocked_S_FMT ::
  "(v4l2_format \<Rightarrow> int \<times> v4l2_format) \<Rightarrow> V4L2Wrapper \<Rightarrow> v4l2_format
     \<Rightarrow> int \<times> v4l2_format \<times> V4L2Wrapper" where
  "ioctlLocked_S_FMT driver w data =
     (if \<not> Connected w then (- ENODEV, data, w)
      else (case driver data of
              (r, data') \<Rightarrow> (r, data', w\<lparr>commands := commands w @ [VIDIOC_S_FMT data]\<rparr>)))"

definition SetFormat ::
  "(v4l2_format \<Rightarrow> int \<times> v4l2_format) \<Rightarrow> V4L2Wrapper \<Rightarrow> StreamFormat
     \<Rightarrow> int \<times> V4L2Wrapper" where
  "SetFormat driver w resolved_format =
     (if (case format_opt w of None \<Rightarrow> False
          | Some current \<Rightarrow> StreamFormat_eq resolved_format current)
      then (0, w)
      else
        (case ioctlLocked_S_FMT driver w (FillFormatRequest resolved_format) of
           (r, new_format, w1) \<Rightarrow>
             if r < 0 then (- ENODEV, w1)
             else if \<not> StreamFormat_eq resolved_format (StreamFormat_of_v4l2_format new_format)
               then (- EINVAL, w1)
             else (0, w1\<lparr>format_opt := Some (StreamFormat_of_v4l2_format new_format),
                          wrapper_buffer_size := pix_sizeimage new_format\<rparr>)))"

definition StreamOff :: "(32 word \<Rightarrow> int) \<Rightarrow> V4L2Wrapper \<Rightarrow> int \<times> V4L2Wrapper" where
  "StreamOff streamoff w =
     (case format_opt w of
        None \<Rightarrow> (0, w)
      | Some current \<Rightarrow>
          if \<not> Connected w then (- ENODEV, w)
          else if streamoff (sf_type current) < 0
            then (- ENODEV, w\<lparr>commands := commands w @ [VIDIOC_STREAMOFF (sf_type current)]\<rparr>)
          else (0, w\<lparr>commands := commands w @ [VIDIOC_STREAMOFF (sf_type current)]\<rparr>))"

section \<open>Device session (device/3.2/camera_device_session.cpp)\<close>

text \<open>
  The session members that the modelled methods read or write, and \<open>callback_log\<close>, the
  calls made on \<open>callback_\<close> so far, in order: \<open>notify\<close> with an error or a shutter
  message, and \<open>processCaptureResult\<close> with one capture result.
\<close>

datatype Status =
  OK | ILLEGAL_ARGUMENT | CAMERA_IN_USE | MAX_CAMERAS_IN_USE | METHOD_NOT_SUPPORTED
  | OPERATION_NOT_SUPPORTED | CAMERA_DISCONNECTED | INTERNAL_ERROR

datatype ErrorCode = ERROR_DEVICE | ERROR_REQUEST | ERROR_RESULT | ERROR_BUFFER

record CaptureResult =
  cr_frameNumber :: "32 word"
  fmqResultSize :: "64 word"
  cr_result :: CameraMetadata
  cr_outputBuffers :: "StreamBuffer list"
  cr_inputBuffer :: StreamBuffer
  partialResult :: "32 word"

datatype callback_event =
  notify_error "32 word" "32 word" ErrorCode
  | notify_shutter "32 word" "64 word"
  | processCaptureResult_call CaptureResult

record Session =
  closed :: bool
  disconnected :: bool
  init_fail :: bool
  started :: bool
  previous_settings :: CameraMetadata
  v4l2_wrapper :: V4L2Wrapper
  camera_tracker :: CameraTracker
  callback_log :: "callback_event list"

text \<open>
  What the session obtains from outside: whether the write of a metadata blob to the
  result queue succeeds, the sensor timestamp read from a metadata blob, and the
  device's answer to \<open>VIDIOC_STREAMOFF\<close>.
\<close>

record session_env =
  fmq_write :: "CameraMetadata \<Rightarrow> bool"
  sensor_timestamp :: "CameraMetadata \<Rightarrow> 64 word"
  streamoff :: "32 word \<Rightarrow> int"

definition initStatus :: "Session \<Rightarrow> Status" where
  "initStatus s =
     (if init_fail s then INTERNAL_ERROR
      else if disconnected s then CAMERA_DISCONNECTED
      else if closed s then INTERNAL_ERROR
      else OK)"

subsection \<open>Stream configuration\<close>

record StreamConfiguration =
  streams :: "Stream list"
  operationMode :: "32 word"

record HalStream =
  hal_id :: "32 word"
  overrideFormat :: "32 word"
  producerUsage :: "64 word"
  consumerUsage :: "64 word"
  maxBuffers :: "32 word"

type_synonym HalStreamConfiguration = "HalStream list"

text \<open>
  The first loop of \<open>configureStreamsVerification\<close> returns at the first stream with a
  rotation above \<open>ROTATION_0\<close> and counts input and output streams otherwise; \<open>None\<close>
  is the early return. The second loop compares each requested stream that is already
  tracked with its tracked properties.
\<close>

fun count_streams :: "Stream list \<Rightarrow> 32 word \<Rightarrow> 32 word \<Rightarrow> (32 word \<times> 32 word) option" where
  "count_streams [] input output = Some (input, output)"
| "count_streams (stream # rest) input output =
     (if rotation stream \<noteq> ROTATION_0 then None
      else if streamType stream = OUTPUT then count_streams rest input (output + 1)
      else count_streams rest (input + 1) output)"

fun existing_streams_ok :: "CameraTracker \<Rightarrow> Stream list \<Rightarrow> bool" where
  "existing_streams_ok t [] = True"
| "existing_streams_ok t (stream # rest) =
     (let s = getStream t (stream_id stream)
      in if s = InvalidStream then existing_streams_ok t rest
         else if streamType s \<noteq> streamType stream \<or> stream_width s \<noteq> stream_width stream
                 \<or> stream_height s \<noteq> stream_height stream
                 \<or> stream_format s \<noteq> stream_format stream
                 \<or> dataSpace s \<noteq> dataSpace stream
           then False
         else existing_streams_ok t rest)"

definition configureStreamsVerification :: "Session \<Rightarrow> StreamConfiguration \<Rightarrow> Status" where
  "configureStreamsVerification s requested_configuration =
     (let status = initStatus s
      in if hasActiveCapture (camera_tracker s) then INTERNAL_ERROR
         else if status \<noteq> OK then status
         else if length (streams requested_configuration) = 0 then ILLEGAL_ARGUMENT
         else
           (case count_streams (streams requested_configuration) 0 0 of
              None \<Rightarrow> ILLEGAL_ARGUMENT
            | Some (input, output) \<Rightarrow>
                if input > 1 \<or> output < 1 then ILLEGAL_ARGUMENT
                else if \<not> existing_streams_ok (camera_tracker s)
                            (streams requested_configuration)
                  then ILLEGAL_ARGUMENT
                else OK))"

text \<open>
  \<open>configureStreams\<close> runs the verification and then three further stages, each of
  which may fail and end the call. The stages after the verification
  (\<open>configureStreamClean\<close>, \<open>configureDriverStream\<close>, \<open>configureStreamResult\<close>) talk to
  the driver and the buffer mapper; they are parameters here, functions of the session
  and the request. The result is what \<open>_hidl_cb\<close> receives, and the session afterwards.
\<close>

record configure_stages =
  configureStreamClean :: "Session \<Rightarrow> StreamConfiguration \<Rightarrow> Status \<times> Session"
  configureDriverStream :: "Session \<Rightarrow> StreamConfiguration \<Rightarrow> Status \<times> Session"
  configureStreamResult ::
    "Session \<Rightarrow> StreamConfiguration \<Rightarrow> (Status \<times> HalStreamConfiguration) \<times> Session"

definition configureStreams ::
  "configure_stages \<Rightarrow> Session \<Rightarrow> StreamConfiguration
     \<Rightarrow> (Status \<times> HalStreamConfiguration) \<times> Session" where
  "configureStreams stages s requested_configuration =
     (let status = configureStreamsVerification s requested_configuration
      in if status \<noteq> OK then ((status, []), s)
         else
           (case configureStreamClean stages s requested_configuration of
              (status1, s1) \<Rightarrow>
                if status1 \<noteq> OK then ((status1, []), s1)
                else
                  (case configureDriverStream stages s1 requested_configuration of
                     (status2, s2) \<Rightarrow>
                       if status2 \<noteq> OK then ((status2, []), s2)
                       else configureStreamResult stages s2 requested_configuration)))"

subsection \<open>Capture results and flush\<close>

text \<open>
  \<open>processCaptureResult\<close> saves the buffer with its capture and, when the capture is
  complete, sends the shutter message and the capture result and untracks the capture.
  The settings pointer of a complete capture is dereferenced without a test.
\<close>

definition processCaptureResult ::
  "session_env \<Rightarrow> Session \<Rightarrow> 32 word \<Rightarrow> StreamBuffer \<Rightarrow> fault + (Status \<times> Session)" where
  "processCaptureResult env s capture_id stream_buffer =
     (case saveOutputBuffer (camera_tracker s) stream_buffer capture_id of
        (saved, t1) \<Rightarrow>
          let res = (if saved \<ge> 0 then isCaptureCompleted t1 capture_id else saved)
          in if res < 0 then Inr (INTERNAL_ERROR, s\<lparr>camera_tracker := t1\<rparr>)
             else if res > 0 then
               (case getCaptureSettings t1 capture_id of
                  (settings_ptr, count) \<Rightarrow>
                    (case popInputResult t1 capture_id of
                       (input_res, t2) \<Rightarrow>
                         (case popOutputResults t2 capture_id of
                            (output_res, t3) \<Rightarrow>
                              (case settings_ptr of
                                 None \<Rightarrow> Inl NullPointerDereference
                               | Some metadata \<Rightarrow>
                                   let result =
                                         \<lparr>cr_frameNumber = capture_id,
                                          fmqResultSize =
                                            (if fmq_write env metadata
                                             then ucast (of_nat (length metadata) :: 32 word)
                                             else 0),
                                          cr_result =
                                            (if fmq_write env metadata then [] else metadata),
                                          cr_outputBuffers = output_res,
                                          cr_inputBuffer = input_res,
                                          partialResult = count\<rparr>;
                                       timestamp = sensor_timestamp env metadata;
                                       t4 = snd (untrackCapture t3 capture_id)
                                   in Inr (OK,
                                        s\<lparr>camera_tracker := t4,
                                          callback_log := callback_log s
                                            @ [notify_shutter capture_id timestamp,
                                               processCaptureResult_call result]\<rparr>)))))
             else Inr (OK, s\<lparr>camera_tracker := t1\<rparr>))"

text \<open>
  \<open>processCaptureBufferError\<close> at \<open>ErrorCode::ERROR_BUFFER\<close>, the only code that \<open>flush\<close>
  and the capture thread pass: the error message is notified, the buffer is marked as
  failed and goes through \<open>processCaptureResult\<close>, whose status is dropped.
\<close>

definition processCaptureBufferError_ERROR_BUFFER ::
  "session_env \<Rightarrow> Session \<Rightarrow> 32 word \<Rightarrow> StreamBuffer \<Rightarrow> fault + (Status \<times> Session)" where
  "processCaptureBufferError_ERROR_BUFFER env s capture_id stream_buffer =
     (let s1 = s\<lparr>callback_log := callback_log s
                   @ [notify_error capture_id (streamId stream_buffer) ERROR_BUFFER]\<rparr>;
          failed = stream_buffer\<lparr>status := BufferStatus_ERROR,
                     releaseFence := acquireFence stream_buffer, acquireFence := None\<rparr>
      in (case processCaptureResult env s1 capture_id failed of
            Inl f \<Rightarrow> Inl f
          | Inr (st, s2) \<Rightarrow> Inr (OK, s2)))"

text \<open>
  The loop of \<open>flush\<close> runs while the tracker holds a capture; nothing bounds the number
  of its iterations, so the loop is a partial function: \<open>None\<close> is a loop that never
  ends. \<open>flush\<close> runs with both flush locks held, which keeps request submission and
  the result thread's processing out of the loop.
\<close>

partial_function (option) flush_loop :: "session_env \<Rightarrow> Session \<Rightarrow> (fault + Session) option" where
  "flush_loop env s =
     (if hasActiveCapture (camera_tracker s) then
        (case popNextOutputBuffer (camera_tracker s) of
           (stream_buffer, capture_id, t1) \<Rightarrow>
             if capture_id \<ge> 0 then
               (case processCaptureBufferError_ERROR_BUFFER env (s\<lparr>camera_tracker := t1\<rparr>)
                       (word_of_int capture_id) stream_buffer of
                  Inl f \<Rightarrow> Some (Inl f)
                | Inr (st, s2) \<Rightarrow> flush_loop env s2)
             else flush_loop env (s\<lparr>camera_tracker := t1\<rparr>))
      else Some (Inr s))"

definition flush :: "session_env \<Rightarrow> Session \<Rightarrow> (fault + Status \<times> Session) option" where
  "flush env s =
     (let status = initStatus s
      in if status = OK then
           (case flush_loop env s of
              None \<Rightarrow> None
            | Some (Inl f) \<Rightarrow> Some (Inl f)
            | Some (Inr s1) \<Rightarrow>
                Some (Inr (status,
                  s1\<lparr>v4l2_wrapper := snd (StreamOff (streamoff env) (v4l2_wrapper s1)),
                     started := False\<rparr>)))
         else Some (Inr (status, s)))"

text \<open>
  The number of pending output buffers of a tracker, the messages that report a failed
  buffer, and the tracker states that request submission produces: every tracked
  capture still has a pending output, has no pending input, carries an id that is not
  negative as an \<open>int\<close> and has its settings stored; no id is tracked twice.
\<close>

definition pending_outputs :: "CameraTracker \<Rightarrow> nat" where
  "pending_outputs t = sum_list (map (\<lambda>capture. length (output_buffers capture)) (capture_list t))"

fun is_buffer_error :: "callback_event \<Rightarrow> bool" where
  "is_buffer_error (notify_error frame stream code) = (code = ERROR_BUFFER)"
| "is_buffer_error (notify_shutter frame timestamp) = False"
| "is_buffer_error (processCaptureResult_call result) = False"

definition capture_ready :: "CameraTracker \<Rightarrow> TrackedCapture \<Rightarrow> bool" where
  "capture_ready t capture =
     (output_buffers capture \<noteq> [] \<and> streamId (input_buffer capture) = - 1
      \<and> 0 \<le> sint (tc_id capture)
      \<and> (case tracked_settings t (tc_id capture) of
            None \<Rightarrow> False | Some ts \<Rightarrow> ts_settings ts \<noteq> None))"

definition flush_ready :: "CameraTracker \<Rightarrow> bool" where
  "flush_ready t =
     (list_all (capture_ready t) (capture_list t) \<and> distinct (map tc_id (capture_list t)))"

section \<open>Theorems about stream formats\<close>

text \<open>
  C1 (GetQualifiedStreams returns no two entries of the same resolution, in priority
  order, drawn from the supported list). The code at the failing input: the device
  supports 640x480 in YUYV and in MJPEG, both qualified. The first stream lands at index
  0 of \<open>qualified_streams\<close>; for the second, \<open>FindFormatByResolution\<close> returns that
  index 0, the test \<open>> 0\<close> is false, and the stream is appended: the result holds two
  entries of resolution 640x480.
\<close>

theorem GetQualifiedStreams_duplicate_resolution:
  "GetQualifiedStreams [V4L2_PIX_FMT_YUYV, V4L2_PIX_FMT_MJPEG]
     [\<lparr>sf_type = 1, sf_v4l2_pixel_format = V4L2_PIX_FMT_YUYV, sf_width = 640, sf_height = 480\<rparr>,
      \<lparr>sf_type = 1, sf_v4l2_pixel_format = V4L2_PIX_FMT_MJPEG, sf_width = 640, sf_height = 480\<rparr>]
   = [\<lparr>sf_type = 1, sf_v4l2_pixel_format = V4L2_PIX_FMT_YUYV, sf_width = 640, sf_height = 480\<rparr>,
      \<lparr>sf_type = 1, sf_v4l2_pixel_format = V4L2_PIX_FMT_MJPEG, sf_width = 640, sf_height = 480\<rparr>]
   \<and> FindFormatByResolution
       [\<lparr>sf_type = 1, sf_v4l2_pixel_format = V4L2_PIX_FMT_YUYV, sf_width = 640, sf_height = 480\<rparr>]
       640 480 = 0"
  by (simp add: GetQualifiedStreams_def FindFormatByResolution_def
      V4L2_PIX_FMT_YUYV_def V4L2_PIX_FMT_MJPEG_def)

section \<open>Theorems about the capture tracker\<close>

text \<open>
  C2, as amended. \<open>trackCapture\<close> keeps no record of the ids it has seen: every call
  appends one new tracked capture built from the request at the end of the capture
  list and returns the frame number read as an \<open>int\<close>. Two calls with the same request
  therefore return the same id and leave two entries for it.
\<close>

theorem trackCapture_appends:
  "fst (trackCapture t request) = sint (frameNumber request)
   \<and> capture_list (snd (trackCapture t request))
       = capture_list t @ [tracked_capture_of request]
   \<and> fst (trackCapture (snd (trackCapture t request)) request) = sint (frameNumber request)
   \<and> capture_list (snd (trackCapture (snd (trackCapture t request)) request))
       = capture_list t @ [tracked_capture_of request, tracked_capture_of request]"
  by (simp add: trackCapture_def)

text \<open>
  C2 as stated fails: on the empty tracker, tracking the request of frame 7 with one
  output buffer twice leaves two tracked captures, tracking it once leaves one.
\<close>

theorem trackCapture_not_idempotent:
  "capture_list (snd (trackCapture
       (snd (trackCapture
          \<lparr>tracked_streams = Map.empty, stream_buffers = Map.empty, capture_list = [],
            tracked_settings = Map.empty\<rparr>
          \<lparr>frameNumber = 7, fmqSettingsSize = 0, settings = [],
            inputBuffer = InvalidStreamBuffer,
            outputBuffers = [\<lparr>streamId = 0, bufferId = 1, buffer = Some 1,
              status = BufferStatus_OK, acquireFence = None, releaseFence = None\<rparr>]\<rparr>))
       \<lparr>frameNumber = 7, fmqSettingsSize = 0, settings = [],
         inputBuffer = InvalidStreamBuffer,
         outputBuffers = [\<lparr>streamId = 0, bufferId = 1, buffer = Some 1,
           status = BufferStatus_OK, acquireFence = None, releaseFence = None\<rparr>]\<rparr>))
   \<noteq> capture_list (snd (trackCapture
       \<lparr>tracked_streams = Map.empty, stream_buffers = Map.empty, capture_list = [],
         tracked_settings = Map.empty\<rparr>
       \<lparr>frameNumber = 7, fmqSettingsSize = 0, settings = [],
         inputBuffer = InvalidStreamBuffer,
         outputBuffers = [\<lparr>streamId = 0, bufferId = 1, buffer = Some 1,
           status = BufferStatus_OK, acquireFence = None, releaseFence = None\<rparr>]\<rparr>))"
  by (simp add: trackCapture_def)

text \<open>
  C9. The lookup is by id and stops at the first tracked capture carrying it. For that
  capture \<open>isCaptureCompleted\<close> returns 1 (true) exactly when its pending-output queue is
  empty and its pending input buffer has stream id -1, and 0 (false) otherwise; for an
  id that no tracked capture carries it returns -1.
\<close>

theorem isCaptureCompleted_spec:
  "(find (\<lambda>capture. tc_id capture = capture_id) (capture_list t) = Some c \<longrightarrow>
      isCaptureCompleted t capture_id \<in> {0, 1} \<and>
      (isCaptureCompleted t capture_id = 1 \<longleftrightarrow>
         output_buffers c = [] \<and> streamId (input_buffer c) = - 1))
   \<and> (capture_id \<notin> tc_id ` set (capture_list t) \<longrightarrow>
      isCaptureCompleted t capture_id = - 1)"
proof -
  have found: "find (\<lambda>capture. tc_id capture = capture_id) l = Some c \<Longrightarrow>
      isCaptureCompleted_list l capture_id
        = (if output_buffers c = [] \<and> streamId (input_buffer c) = - 1 then 1 else 0)"
    for l
    by (induction l) (auto split: if_splits)
  have missing: "capture_id \<notin> tc_id ` set l \<Longrightarrow> isCaptureCompleted_list l capture_id = - 1"
    for l
    by (induction l) auto
  show ?thesis
    using found [of "capture_list t"] missing [of "capture_list t"]
    by (auto simp: isCaptureCompleted_def)
qed

theorem isCaptureCompleted_spec_witness:
  "find (\<lambda>capture. tc_id capture = 7)
     [\<lparr>tc_id = 7, output_buffers = [], input_buffer = InvalidStreamBuffer,
       output_results = [], input_result = InvalidStreamBuffer\<rparr>]
     = Some \<lparr>tc_id = 7, output_buffers = [], input_buffer = InvalidStreamBuffer,
       output_results = [], input_result = InvalidStreamBuffer\<rparr>
   \<and> (8 :: 32 word) \<notin> tc_id `
       set [\<lparr>tc_id = 7, output_buffers = [], input_buffer = InvalidStreamBuffer,
             output_results = [], input_result = InvalidStreamBuffer\<rparr>]
   \<and> isCaptureCompleted
       \<lparr>tracked_streams = Map.empty, stream_buffers = Map.empty,
         capture_list = [\<lparr>tc_id = 7, output_buffers = [],
           input_buffer = InvalidStreamBuffer, output_results = [],
           input_result = InvalidStreamBuffer\<rparr>],
         tracked_settings = Map.empty\<rparr> 7 = 1
   \<and> isCaptureCompleted
       \<lparr>tracked_streams = Map.empty, stream_buffers = Map.empty,
         capture_list = [\<lparr>tc_id = 7, output_buffers = [],
           input_buffer = InvalidStreamBuffer, output_results = [],
           input_result = InvalidStreamBuffer\<rparr>],
         tracked_settings = Map.empty\<rparr> 8 = - 1"
  using isCaptureCompleted_spec [of 7
      "\<lparr>tracked_streams = Map.empty, stream_buffers = Map.empty,
         capture_list = [\<lparr>tc_id = 7, output_buffers = [],
           input_buffer = InvalidStreamBuffer, output_results = [],
           input_result = InvalidStreamBuffer\<rparr>],
         tracked_settings = Map.empty\<rparr>"
      "\<lparr>tc_id = 7, output_buffers = [], input_buffer = InvalidStreamBuffer,
         output_results = [], input_result = InvalidStreamBuffer\<rparr>"]
    isCaptureCompleted_spec [of 8
      "\<lparr>tracked_streams = Map.empty, stream_buffers = Map.empty,
         capture_list = [\<lparr>tc_id = 7, output_buffers = [],
           input_buffer = InvalidStreamBuffer, output_results = [],
           input_result = InvalidStreamBuffer\<rparr>],
         tracked_settings = Map.empty\<rparr>"]
  by (simp add: InvalidStreamBuffer_def)

section \<open>Facts about machine words\<close>

lemma and_not_15: "(x :: 'z::len word) AND NOT 15 = x - (x AND 15)"
proof -
  have "NOT x AND (x AND 15) = 0"
    by (simp add: bit_eq_iff bit_simps)
  then have "x - (x AND 15) = x AND NOT (x AND 15)"
    by (rule disjunctive_diff_eq_and_not)
  also have "\<dots> = x AND NOT 15"
    by (auto simp: bit_eq_iff bit_simps)
  finally show ?thesis by simp
qed

lemma and_15_le: "unat ((x :: 'z::len word) AND 15) \<le> 15"
proof -
  have "x AND 15 = take_bit 4 x"
    by (simp add: take_bit_eq_mask mask_eq_exp_minus_1)
  then have "unat (x AND 15) = take_bit 4 (unat x)"
    by (simp add: unsigned_take_bit_eq)
  moreover have "take_bit 4 (unat x) < 2 ^ 4"
    by (rule take_bit_nat_less_exp)
  ultimately show ?thesis by simp
qed

lemma unat_ucast_up:
  assumes "32 \<le> LENGTH('z::len)"
  shows "unat (ucast (w :: 32 word) :: 'z word) = unat w"
proof -
  have "unat w < 2 ^ 32"
    using unsigned_less [of w, where 'a = nat] by simp
  also have "(2 :: nat) ^ 32 \<le> 2 ^ LENGTH('z)"
    by (rule power_increasing) (use assms in simp_all)
  finally have "take_bit LENGTH('z) (unat w) = unat w"
    by (rule take_bit_nat_eq_self)
  then show ?thesis by (simp add: unsigned_ucast_eq)
qed

lemma unat_15:
  assumes "32 \<le> LENGTH('z::len)"
  shows "unat (15 :: 'z word) = 15"
proof -
  have "(15 :: nat) < 2 ^ 32" by simp
  also have "(2 :: nat) ^ 32 \<le> 2 ^ LENGTH('z)"
    by (rule power_increasing) (use assms in simp_all)
  finally have "take_bit LENGTH('z) (15 :: nat) = 15"
    by (rule take_bit_nat_eq_self)
  then show ?thesis by simp
qed

lemma Align16_bounds:
  fixes v :: "'z::len word"
  assumes "32 \<le> LENGTH('z)" and "unat v + 15 < 2 ^ LENGTH('z)"
  shows "unat v \<le> unat (Align16 v)" and "unat (Align16 v) \<le> unat v + 15"
proof -
  let ?x = "v + 15"
  have ux: "unat ?x = unat v + 15"
    using assms unat_15 [where 'z = 'z] by (simp add: unat_word_ariths del: unsigned_numeral)
  have le: "?x AND 15 \<le> ?x" by (rule word_and_le2)
  have "unat (Align16 v) = unat (?x - (?x AND 15))"
    by (simp only: Align16_def and_not_15)
  also have "\<dots> = unat ?x - unat (?x AND 15)"
    using le by (simp add: unat_sub)
  finally have eq: "unat (Align16 v) = unat v + 15 - unat (?x AND 15)"
    using ux by simp
  show "unat v \<le> unat (Align16 v)" using eq and_15_le [of ?x] by simp
  show "unat (Align16 v) \<le> unat v + 15" using eq by simp
qed


lemma unat32_mult:
  fixes a b :: "32 word"
  assumes "unat a * unat b < 2 ^ 32"
  shows "unat (a * b) = unat a * unat b"
  using assms unat_mult_lem [of a b] by simp

lemma GetConvertedSize_yuv420_pos:
  fixes width height :: "32 word"
  assumes len: "32 \<le> LENGTH('z::len)"
    and pos: "0 < unat width" "0 < unat height"
    and small: "unat width < 2 ^ 15" "unat height < 2 ^ 15"
  shows "0 < unat (ucast (width * height * 3 div 2) :: 'z word)"
proof -
  have wh: "unat width * unat height < 2 ^ 15 * 2 ^ 15"
    using small by (intro mult_strict_mono) simp_all
  then have m1: "unat (width * height) = unat width * unat height"
    by (intro unat32_mult) simp
  have u3: "unat (3 :: 32 word) = 3" by simp
  have "unat (width * height) * unat (3 :: 32 word) < 2 ^ 32"
    using wh by (simp only: m1 u3) simp
  then have m2: "unat (width * height * 3) = unat width * unat height * 3"
    by (simp only: unat32_mult m1 u3)
  have "1 \<le> unat width * unat height"
    using pos by (simp add: Suc_le_eq)
  then have "2 \<le> unat width * unat height * 3"
    by linarith
  then have "0 < unat width * unat height * 3 div 2"
    by (simp add: div_greater_zero_iff)
  moreover have "unat (width * height * 3 div 2) = unat width * unat height * 3 div 2"
    using m2 by (simp add: unat_div)
  ultimately show ?thesis
    using len by (simp add: unat_ucast_up)
qed

lemma GetConvertedSize_rgb_pos:
  fixes width height :: "32 word"
  assumes len: "32 \<le> LENGTH('z::len)"
    and pos: "0 < unat width" "0 < unat height"
    and small: "unat width < 2 ^ 15" "unat height < 2 ^ 15"
  shows "0 < unat (ucast (width * height * 4) :: 'z word)"
proof -
  have wh: "unat width * unat height < 2 ^ 15 * 2 ^ 15"
    using small by (intro mult_strict_mono) simp_all
  then have m1: "unat (width * height) = unat width * unat height"
    by (intro unat32_mult) simp
  have u4: "unat (4 :: 32 word) = 4" by simp
  have "unat (width * height) * unat (4 :: 32 word) < 2 ^ 32"
    using wh by (simp only: m1 u4) (simp add: ac_simps)
  then have m2: "unat (width * height * 4) = unat width * unat height * 4"
    by (simp only: unat32_mult m1 u4)
  then show ?thesis
    using len pos by (simp add: unat_ucast_up)
qed

lemma GetConvertedSize_yv12_pos:
  fixes width height :: "32 word"
  assumes len: "32 \<le> LENGTH('z::len)"
    and pos: "0 < unat width" "0 < unat height"
    and small: "unat width < 2 ^ 15" "unat height < 2 ^ 15"
  shows "0 < unat (Align16 (ucast width) * ucast height
                   + Align16 (ucast (width div 2)) * ucast height :: 'z word)"
proof -
  let ?W = "unat width" and ?H = "unat height"
  let ?a = "Align16 (ucast width :: 'z word)" and ?b = "Align16 (ucast (width div 2) :: 'z word)"
  let ?h = "ucast height :: 'z word"
  have p32: "(2 :: nat) ^ 32 \<le> 2 ^ LENGTH('z)"
    by (rule power_increasing) (use len in simp_all)
  have uw: "unat (ucast width :: 'z word) = ?W" and uh: "unat ?h = ?H"
    and uw2: "unat (ucast (width div 2) :: 'z word) = ?W div 2"
    using len by (simp_all add: unat_ucast_up unat_div)
  have "?W + 15 < 2 ^ LENGTH('z)" "?W div 2 + 15 < 2 ^ LENGTH('z)"
    using small p32 by simp_all
  then have a: "?W \<le> unat ?a" "unat ?a \<le> ?W + 15"
    and b: "unat ?b \<le> ?W div 2 + 15"
    using Align16_bounds [OF len, of "ucast width"]
      Align16_bounds [OF len, of "ucast (width div 2)"] uw uw2 by simp_all
  have "unat ?a * ?H \<le> (2 ^ 15 + 15) * 2 ^ 15"
    using a small by (intro mult_mono) simp_all
  moreover have "unat ?b * ?H \<le> (2 ^ 15 + 15) * 2 ^ 15"
    using b small by (intro mult_mono) simp_all
  ultimately have sum: "unat ?a * ?H + unat ?b * ?H < 2 ^ 32"
    by simp
  then have lt: "unat ?a * ?H + unat ?b * ?H < 2 ^ LENGTH('z)"
    using p32 by simp
  have ma: "unat (?a * ?h) = unat ?a * ?H"
    using lt unat_mult_lem [of ?a ?h] uh by simp
  have mb: "unat (?b * ?h) = unat ?b * ?H"
    using lt unat_mult_lem [of ?b ?h] uh by simp
  have "unat (?a * ?h + ?b * ?h) = unat ?a * ?H + unat ?b * ?H"
    using lt ma mb unat_add_lem [of "?a * ?h" "?b * ?h"] by simp
  moreover have "0 < unat ?a * ?H"
    using a pos by simp
  ultimately show ?thesis by simp
qed

section \<open>Facts about the crop geometry\<close>

















section \<open>Theorems about frame buffers and the image processor\<close>

text \<open>
  C10, as amended. Every \<open>SetDataSize\<close> call preserves used-size \<open>\<le>\<close> capacity, whichever
  way it ends. The base \<open>FrameBuffer::SetDataSize\<close> rejects a size above the capacity
  with \<open>-EINVAL\<close> and leaves the frame as it was, and otherwise stores the size and
  nothing else. \<open>AllocatedFrameBuffer::SetDataSize\<close> never returns an error code. For a
  size within the capacity it stores the size and keeps the backing array and the
  capacity. For a size above the capacity it allocates a new array: if the allocation
  succeeds, the backing array becomes the new array, which has exactly that many bytes,
  the capacity and the used-size become that size, and 0 is returned; if the allocation
  fails, \<open>std::bad_alloc\<close> leaves the call and the frame is as it was. Whenever it returns,
  the code is 0, the used-size is the requested one, and the backing array still has as
  many bytes as the capacity says if it had before.
\<close>

theorem SetDataSize_used_within_capacity:
  fixes fb :: "('z :: len) FrameBuffer"
  shows
  "(n > buffer_size fb \<longrightarrow> FrameBuffer_SetDataSize fb n = (- EINVAL, fb))
   \<and> (n \<le> buffer_size fb \<longrightarrow> FrameBuffer_SetDataSize fb n = (0, fb\<lparr>data_size := n\<rparr>))
   \<and> (n \<le> buffer_size fb \<longrightarrow>
        AllocatedFrameBuffer_SetDataSize heap fb n = Inr (0, fb\<lparr>data_size := n\<rparr>))
   \<and> (\<forall>init. n > buffer_size fb \<and> heap n = Some init \<longrightarrow>
        AllocatedFrameBuffer_SetDataSize heap fb n
          = Inr (0, fb\<lparr>fb_data := map init [0..<unat n], buffer_size := n, data_size := n\<rparr>)
        \<and> length (map init [0..<unat n]) = unat n)
   \<and> (n > buffer_size fb \<and> heap n = None \<longrightarrow>
        AllocatedFrameBuffer_SetDataSize heap fb n = Inl (bad_alloc, fb))
   \<and> (\<forall>r fb'. AllocatedFrameBuffer_SetDataSize heap fb n = Inr (r, fb') \<longrightarrow>
        r = 0 \<and> data_size fb' = n \<and> data_size fb' \<le> buffer_size fb'
        \<and> (length (fb_data fb) = unat (buffer_size fb) \<longrightarrow>
             length (fb_data fb') = unat (buffer_size fb')))
   \<and> (data_size fb \<le> buffer_size fb \<longrightarrow>
        (case SetDataSize heap fb n of
           Inl (e, fb') \<Rightarrow> fb' = fb
         | Inr (r, fb') \<Rightarrow> data_size fb' \<le> buffer_size fb'))"
proof -
  have c1: "n > buffer_size fb \<longrightarrow> FrameBuffer_SetDataSize fb n = (- EINVAL, fb)"
    by (simp add: FrameBuffer_SetDataSize_def)
  have c2: "n \<le> buffer_size fb \<longrightarrow> FrameBuffer_SetDataSize fb n = (0, fb\<lparr>data_size := n\<rparr>)"
    by (simp add: FrameBuffer_SetDataSize_def leD)
  have c3: "n \<le> buffer_size fb \<longrightarrow>
      AllocatedFrameBuffer_SetDataSize heap fb n = Inr (0, fb\<lparr>data_size := n\<rparr>)"
    by (simp add: AllocatedFrameBuffer_SetDataSize_def leD)
  have c4: "\<forall>init. n > buffer_size fb \<and> heap n = Some init \<longrightarrow>
      AllocatedFrameBuffer_SetDataSize heap fb n
        = Inr (0, fb\<lparr>fb_data := map init [0..<unat n], buffer_size := n, data_size := n\<rparr>)
      \<and> length (map init [0..<unat n]) = unat n"
    by (simp add: AllocatedFrameBuffer_SetDataSize_def new_uint8_array_def)
  have c5: "n > buffer_size fb \<and> heap n = None \<longrightarrow>
      AllocatedFrameBuffer_SetDataSize heap fb n = Inl (bad_alloc, fb)"
    by (simp add: AllocatedFrameBuffer_SetDataSize_def new_uint8_array_def)
  have c6: "\<forall>r fb'. AllocatedFrameBuffer_SetDataSize heap fb n = Inr (r, fb') \<longrightarrow>
      r = 0 \<and> data_size fb' = n \<and> data_size fb' \<le> buffer_size fb'
      \<and> (length (fb_data fb) = unat (buffer_size fb) \<longrightarrow>
           length (fb_data fb') = unat (buffer_size fb'))"
  proof (cases "n > buffer_size fb")
    case True
    show ?thesis
    proof (cases "heap n")
      case None
      with True show ?thesis
        by (simp add: AllocatedFrameBuffer_SetDataSize_def new_uint8_array_def)
    next
      case (Some init)
      with True show ?thesis
        by (simp add: AllocatedFrameBuffer_SetDataSize_def new_uint8_array_def)
    qed
  next
    case False
    then have le: "n \<le> buffer_size fb" by (simp add: not_less)
    from False le show ?thesis
      by (simp add: AllocatedFrameBuffer_SetDataSize_def)
  qed
  have c7: "data_size fb \<le> buffer_size fb \<longrightarrow>
      (case SetDataSize heap fb n of
         Inl (e, fb') \<Rightarrow> fb' = fb
       | Inr (r, fb') \<Rightarrow> data_size fb' \<le> buffer_size fb')"
  proof
    assume inv: "data_size fb \<le> buffer_size fb"
    show "case SetDataSize heap fb n of
         Inl (e, fb') \<Rightarrow> fb' = fb
       | Inr (r, fb') \<Rightarrow> data_size fb' \<le> buffer_size fb'"
    proof (cases "n > buffer_size fb")
      case True
      then have base: "FrameBuffer_SetDataSize fb n = (- EINVAL, fb)"
        by (simp add: FrameBuffer_SetDataSize_def)
      have alloc: "case AllocatedFrameBuffer_SetDataSize heap fb n of
           Inl (e, fb') \<Rightarrow> fb' = fb
         | Inr (r, fb') \<Rightarrow> data_size fb' \<le> buffer_size fb'"
        using True
        by (cases "heap n")
          (simp_all add: AllocatedFrameBuffer_SetDataSize_def new_uint8_array_def)
      show ?thesis
        using inv alloc by (cases "fb_kind fb") (simp_all add: SetDataSize_def base)
    next
      case False
      then have le: "n \<le> buffer_size fb" by (simp add: not_less)
      from False have base: "FrameBuffer_SetDataSize fb n = (0, fb\<lparr>data_size := n\<rparr>)"
        by (simp add: FrameBuffer_SetDataSize_def)
      from False have alloc:
        "AllocatedFrameBuffer_SetDataSize heap fb n = Inr (0, fb\<lparr>data_size := n\<rparr>)"
        by (simp add: AllocatedFrameBuffer_SetDataSize_def)
      show ?thesis
        using le by (cases "fb_kind fb") (simp_all add: SetDataSize_def base alloc)
    qed
  qed
  show ?thesis
    by (rule conjI c1 c2 c3 c4 c5 c6 c7)+
qed

theorem SetDataSize_used_within_capacity_witness:
  "(9 :: 32 word) > 8 \<and> (6 :: 32 word) \<le> 8
   \<and> FrameBuffer_SetDataSize
        \<lparr>fb_kind = V4L2FrameBuffer_object, fb_data = [1, 2, 3, 4, 5, 6, 7, 8],
          data_size = 4 :: 32 word, buffer_size = 8, fb_width = 2, fb_height = 2, fourcc = 0\<rparr> 9
      = (- EINVAL, \<lparr>fb_kind = V4L2FrameBuffer_object, fb_data = [1, 2, 3, 4, 5, 6, 7, 8],
          data_size = 4, buffer_size = 8, fb_width = 2, fb_height = 2, fourcc = 0\<rparr>)
   \<and> FrameBuffer_SetDataSize
        \<lparr>fb_kind = V4L2FrameBuffer_object, fb_data = [1, 2, 3, 4, 5, 6, 7, 8],
          data_size = 4 :: 32 word, buffer_size = 8, fb_width = 2, fb_height = 2, fourcc = 0\<rparr> 6
      = (0, \<lparr>fb_kind = V4L2FrameBuffer_object, fb_data = [1, 2, 3, 4, 5, 6, 7, 8],
          data_size = 6, buffer_size = 8, fb_width = 2, fb_height = 2, fourcc = 0\<rparr>)
   \<and> AllocatedFrameBuffer_SetDataSize (\<lambda>n. if n \<le> 1024 then Some (\<lambda>i. 170) else None)
        \<lparr>fb_kind = AllocatedFrameBuffer_object, fb_data = [1, 2, 3, 4, 5, 6, 7, 8],
          data_size = 4 :: 32 word, buffer_size = 8, fb_width = 2, fb_height = 2, fourcc = 0\<rparr> 6
      = Inr (0, \<lparr>fb_kind = AllocatedFrameBuffer_object, fb_data = [1, 2, 3, 4, 5, 6, 7, 8],
          data_size = 6, buffer_size = 8, fb_width = 2, fb_height = 2, fourcc = 0\<rparr>)
   \<and> AllocatedFrameBuffer_SetDataSize (\<lambda>n. if n \<le> 1024 then Some (\<lambda>i. 170) else None)
        \<lparr>fb_kind = AllocatedFrameBuffer_object, fb_data = [1, 2, 3, 4, 5, 6, 7, 8],
          data_size = 4 :: 32 word, buffer_size = 8, fb_width = 2, fb_height = 2, fourcc = 0\<rparr> 9
      = Inr (0, \<lparr>fb_kind = AllocatedFrameBuffer_object,
          fb_data = [170, 170, 170, 170, 170, 170, 170, 170, 170],
          data_size = 9, buffer_size = 9, fb_width = 2, fb_height = 2, fourcc = 0\<rparr>)
   \<and> AllocatedFrameBuffer_SetDataSize (\<lambda>n. if n \<le> 1024 then Some (\<lambda>i. 170) else None)
        \<lparr>fb_kind = AllocatedFrameBuffer_object, fb_data = [1, 2, 3, 4, 5, 6, 7, 8],
          data_size = 4 :: 32 word, buffer_size = 8, fb_width = 2, fb_height = 2, fourcc = 0\<rparr> 2000
      = Inl (bad_alloc, \<lparr>fb_kind = AllocatedFrameBuffer_object,
          fb_data = [1, 2, 3, 4, 5, 6, 7, 8],
          data_size = 4, buffer_size = 8, fb_width = 2, fb_height = 2, fourcc = 0\<rparr>)"
proof -
  let ?v = "\<lparr>fb_kind = V4L2FrameBuffer_object, fb_data = [1, 2, 3, 4, 5, 6, 7, 8],
          data_size = 4 :: 32 word, buffer_size = 8, fb_width = 2, fb_height = 2, fourcc = 0\<rparr>"
  let ?a = "\<lparr>fb_kind = AllocatedFrameBuffer_object, fb_data = [1, 2, 3, 4, 5, 6, 7, 8],
          data_size = 4 :: 32 word, buffer_size = 8, fb_width = 2, fb_height = 2, fourcc = 0\<rparr>"
  let ?heap = "\<lambda>n :: 32 word. if n \<le> 1024 then Some (\<lambda>i :: nat. 170 :: 8 word) else None"
  have up: "map (\<lambda>i :: nat. 170 :: 8 word) [0..<9]
      = [170, 170, 170, 170, 170, 170, 170, 170, 170]"
    by (simp add: upt_rec)
  have w1: "FrameBuffer_SetDataSize ?v 9 = (- EINVAL, ?v)"
    using SetDataSize_used_within_capacity [of ?v 9 ?heap, THEN conjunct1] by simp
  have w2: "FrameBuffer_SetDataSize ?v 6 = (0, ?v\<lparr>data_size := 6\<rparr>)"
    using SetDataSize_used_within_capacity [of ?v 6 ?heap, THEN conjunct2, THEN conjunct1]
    by simp
  have w3: "AllocatedFrameBuffer_SetDataSize ?heap ?a 6 = Inr (0, ?a\<lparr>data_size := 6\<rparr>)"
    using SetDataSize_used_within_capacity [of ?a 6 ?heap, THEN conjunct2, THEN conjunct2,
        THEN conjunct1]
    by simp
  have w4: "AllocatedFrameBuffer_SetDataSize ?heap ?a 9
      = Inr (0, ?a\<lparr>fb_data := map (\<lambda>i. 170) [0..<unat (9 :: 32 word)], buffer_size := 9,
               data_size := 9\<rparr>)"
    using SetDataSize_used_within_capacity [of ?a 9 ?heap, THEN conjunct2, THEN conjunct2,
        THEN conjunct2, THEN conjunct1, rule_format, of "\<lambda>i. 170", THEN conjunct1]
    by simp
  have w5: "AllocatedFrameBuffer_SetDataSize ?heap ?a 2000 = Inl (bad_alloc, ?a)"
    using SetDataSize_used_within_capacity [of ?a 2000 ?heap, THEN conjunct2, THEN conjunct2,
        THEN conjunct2, THEN conjunct2, THEN conjunct1]
    by simp
  show ?thesis
    by (simp add: w1 w2 w3 w4 w5 up)
qed

text \<open>
  C10, the claim as written. With an allocator that cannot provide \<open>2^62\<close> bytes, a
  call of \<open>AllocatedFrameBuffer::SetDataSize\<close> with that size on a frame of capacity 2
  does not return: \<open>std::bad_alloc\<close> is thrown, the capacity is not grown and the
  used-size is not set.
\<close>

theorem AllocatedFrameBuffer_SetDataSize_throws_when_allocation_fails:
  "AllocatedFrameBuffer_SetDataSize
      (\<lambda>n :: 64 word. if n \<le> 4294967296 then Some (\<lambda>i. 0) else None)
      \<lparr>fb_kind = AllocatedFrameBuffer_object, fb_data = [7, 7],
        data_size = 1 :: 64 word, buffer_size = 2, fb_width = 2, fb_height = 2, fourcc = 0\<rparr>
      4611686018427387904
    = Inl (bad_alloc,
      \<lparr>fb_kind = AllocatedFrameBuffer_object, fb_data = [7, 7],
        data_size = 1 :: 64 word, buffer_size = 2, fb_width = 2, fb_height = 2, fourcc = 0\<rparr>)
   \<and> (\<forall>r fb'. AllocatedFrameBuffer_SetDataSize
      (\<lambda>n :: 64 word. if n \<le> 4294967296 then Some (\<lambda>i. 0) else None)
      \<lparr>fb_kind = AllocatedFrameBuffer_object, fb_data = [7, 7],
        data_size = 1 :: 64 word, buffer_size = 2, fb_width = 2, fb_height = 2, fourcc = 0\<rparr>
      4611686018427387904 \<noteq> Inr (r, fb'))"
  by (simp add: AllocatedFrameBuffer_SetDataSize_def new_uint8_array_def)

text \<open>
  C6. When the width or the height is odd, \<open>GetConvertedSize\<close> returns 0 for every pixel
  format, and \<open>ConvertFormat\<close>, whose dimensions are those of the input frame, returns
  \<open>-EINVAL\<close> and hands back the output frame as it received it, pixel bytes included.
\<close>

theorem odd_dimension_rejected:
  "odd (unat width) \<or> odd (unat height) \<Longrightarrow>
     (GetConvertedSize fcc width height :: ('z :: len) word) = 0
     \<and> (fb_width in_frame = width \<and> fb_height in_frame = height \<longrightarrow>
          ConvertFormat lib heap metadata in_frame (out_frame :: 'z FrameBuffer)
            = Inr (- EINVAL, out_frame))"
proof -
  assume odd: "odd (unat width) \<or> odd (unat height)"
  have par: "odd (unat w) \<longleftrightarrow> w mod 2 \<noteq> 0" for w :: "32 word"
    by (metis even_iff_mod_2_eq_zero even_of_nat mod_by_0 unsigned_0 word_arith_nat_mod)
  from odd have "width mod 2 \<noteq> 0 \<or> height mod 2 \<noteq> 0"
    by (simp add: par)
  then show ?thesis
    by (auto simp: GetConvertedSize_def ConvertFormat_def)
qed

theorem odd_dimension_rejected_witness:
  "odd (unat (641 :: 32 word)) \<and> (GetConvertedSize V4L2_PIX_FMT_YUV420 641 480 :: 32 word) = 0
   \<and> ConvertFormat (\<lambda>r m i out. (0, [])) (\<lambda>n. Some (\<lambda>i. 0)) []
        \<lparr>fb_kind = V4L2FrameBuffer_object, fb_data = [1, 2], data_size = 2 :: 32 word,
          buffer_size = 2, fb_width = 641, fb_height = 480, fourcc = V4L2_PIX_FMT_YUYV\<rparr>
        \<lparr>fb_kind = AllocatedFrameBuffer_object, fb_data = [9], data_size = 1 :: 32 word,
          buffer_size = 1, fb_width = 641, fb_height = 480, fourcc = V4L2_PIX_FMT_YUV420\<rparr>
      = Inr (- EINVAL,
         \<lparr>fb_kind = AllocatedFrameBuffer_object, fb_data = [9], data_size = 1 :: 32 word,
          buffer_size = 1, fb_width = 641, fb_height = 480, fourcc = V4L2_PIX_FMT_YUV420\<rparr>)"
  using odd_dimension_rejected [of 641 480 V4L2_PIX_FMT_YUV420
      "\<lparr>fb_kind = V4L2FrameBuffer_object, fb_data = [1, 2], data_size = 2 :: 32 word,
          buffer_size = 2, fb_width = 641, fb_height = 480, fourcc = V4L2_PIX_FMT_YUYV\<rparr>"
      "\<lambda>r m i out. (0, [])" "\<lambda>n. Some (\<lambda>i. 0)" "[]"
      "\<lparr>fb_kind = AllocatedFrameBuffer_object, fb_data = [9], data_size = 1 :: 32 word,
          buffer_size = 1, fb_width = 641, fb_height = 480, fourcc = V4L2_PIX_FMT_YUV420\<rparr>"]
  by simp

text \<open>
  C7, as amended. For each of the five supported pixel formats, and for even width and
  height that are both positive and below 32768 (so that none of the products of the
  size formulas wraps), \<open>GetConvertedSize\<close> returns a value strictly greater than 0,
  whatever the width of \<open>size_t\<close> from 32 bits up. The result is a function of the three
  arguments alone.
\<close>

theorem GetConvertedSize_positive:
  fixes width height :: "32 word"
  assumes "32 \<le> LENGTH('z::len)"
    and "fcc \<in> {V4L2_PIX_FMT_YVU420, V4L2_PIX_FMT_YUV420, V4L2_PIX_FMT_NV21,
                V4L2_PIX_FMT_BGR32, V4L2_PIX_FMT_RGB32}"
    and "even (unat width)" and "even (unat height)"
    and "0 < unat width" and "0 < unat height"
    and "unat width < 2 ^ 15" and "unat height < 2 ^ 15"
  shows "0 < unat (GetConvertedSize fcc width height :: 'z word)"
proof -
  have par: "even (unat w) \<Longrightarrow> w mod 2 = 0" for w :: "32 word"
    by (metis even_iff_mod_2_eq_zero even_of_nat mod_by_0 unsigned_0 word_arith_nat_mod)
  have even: "\<not> (width mod 2 \<noteq> 0 \<or> height mod 2 \<noteq> 0)"
    using assms(3,4) by (simp add: par)
  consider "fcc = V4L2_PIX_FMT_YVU420"
    | "fcc \<noteq> V4L2_PIX_FMT_YVU420" "fcc = V4L2_PIX_FMT_YUV420 \<or> fcc = V4L2_PIX_FMT_NV21"
    | "fcc \<noteq> V4L2_PIX_FMT_YVU420" "\<not> (fcc = V4L2_PIX_FMT_YUV420 \<or> fcc = V4L2_PIX_FMT_NV21)"
      "fcc = V4L2_PIX_FMT_BGR32 \<or> fcc = V4L2_PIX_FMT_RGB32"
    using assms(2) by blast
  then show ?thesis
  proof cases
    case 1
    then have "GetConvertedSize fcc width height
        = (Align16 (ucast width) * ucast height
           + Align16 (ucast (width div 2)) * ucast height :: 'z word)"
      using even by (simp add: GetConvertedSize_def)
    then show ?thesis
      using GetConvertedSize_yv12_pos [OF assms(1,5,6,7,8)] by simp
  next
    case 2
    then have "GetConvertedSize fcc width height = (ucast (width * height * 3 div 2) :: 'z word)"
      using even by (simp add: GetConvertedSize_def)
    then show ?thesis
      using GetConvertedSize_yuv420_pos [OF assms(1,5,6,7,8)] by simp
  next
    case 3
    then have "GetConvertedSize fcc width height = (ucast (width * height * 4) :: 'z word)"
      using even by (simp add: GetConvertedSize_def)
    then show ?thesis
      using GetConvertedSize_rgb_pos [OF assms(1,5,6,7,8)] by simp
  qed
qed

theorem GetConvertedSize_positive_witness:
  "32 \<le> LENGTH(64)
   \<and> V4L2_PIX_FMT_YVU420 \<in> {V4L2_PIX_FMT_YVU420, V4L2_PIX_FMT_YUV420, V4L2_PIX_FMT_NV21,
                V4L2_PIX_FMT_BGR32, V4L2_PIX_FMT_RGB32}
   \<and> even (unat (640 :: 32 word)) \<and> even (unat (480 :: 32 word))
   \<and> 0 < unat (640 :: 32 word) \<and> 0 < unat (480 :: 32 word)
   \<and> unat (640 :: 32 word) < 2 ^ 15 \<and> unat (480 :: 32 word) < 2 ^ 15
   \<and> 0 < unat (GetConvertedSize V4L2_PIX_FMT_YVU420 640 480 :: 64 word)"
  using GetConvertedSize_positive [where 'z = 64, of V4L2_PIX_FMT_YVU420 640 480]
  by simp

text \<open>
  C7 as stated fails at even dimensions that are zero, and at even dimensions whose
  32-bit product wraps to zero: in both cases the size returned for YU12 is 0.
\<close>

theorem GetConvertedSize_zero_for_even_dimensions:
  "even (unat (0 :: 32 word))
   \<and> (GetConvertedSize V4L2_PIX_FMT_YUV420 0 0 :: 64 word) = 0
   \<and> even (unat (65536 :: 32 word))
   \<and> (GetConvertedSize V4L2_PIX_FMT_YUV420 65536 65536 :: 64 word) = 0"
  by (simp add: GetConvertedSize_def V4L2_PIX_FMT_YUV420_def V4L2_PIX_FMT_YVU420_def)

section \<open>Theorems about the cached frame\<close>




section \<open>Theorems about the device connection\<close>

text \<open>
  C5, as amended. When the requested format equals the negotiated one (buffer type,
  fourcc, width and height), \<open>SetFormat\<close> returns 0, issues no device command and leaves
  the wrapper unchanged. Otherwise, when the device is not connected, it returns
  \<open>-ENODEV\<close>, issues no command and leaves the wrapper unchanged. Otherwise it issues
  one \<open>VIDIOC_S_FMT\<close> carrying the request, and it fails exactly when the command itself
  fails (\<open>-ENODEV\<close>) or the format the device reports differs from the request in buffer
  type, fourcc, width or height (\<open>-EINVAL\<close>); a failure leaves the stored format and
  buffer size unchanged, a success stores the reported format and image size.
\<close>

theorem SetFormat_spec:
  "(format_opt w = Some current \<and> StreamFormat_eq requested current \<longrightarrow>
      SetFormat driver w requested = (0, w))
   \<and> ((format_opt w = None \<or> (format_opt w = Some current \<and> \<not> StreamFormat_eq requested current))
        \<and> \<not> Connected w \<longrightarrow>
      SetFormat driver w requested = (- ENODEV, w))
   \<and> ((format_opt w = None \<or> (format_opt w = Some current \<and> \<not> StreamFormat_eq requested current))
        \<and> Connected w \<longrightarrow>
      commands (snd (SetFormat driver w requested))
        = commands w @ [VIDIOC_S_FMT (FillFormatRequest requested)]
      \<and> (fst (SetFormat driver w requested) \<noteq> 0 \<longleftrightarrow>
            fst (driver (FillFormatRequest requested)) < 0
            \<or> \<not> StreamFormat_eq requested
                  (StreamFormat_of_v4l2_format (snd (driver (FillFormatRequest requested)))))
      \<and> (fst (driver (FillFormatRequest requested)) < 0 \<longrightarrow>
            fst (SetFormat driver w requested) = - ENODEV)
      \<and> (\<not> fst (driver (FillFormatRequest requested)) < 0
           \<and> \<not> StreamFormat_eq requested
                  (StreamFormat_of_v4l2_format (snd (driver (FillFormatRequest requested)))) \<longrightarrow>
            fst (SetFormat driver w requested) = - EINVAL)
      \<and> (fst (SetFormat driver w requested) \<noteq> 0 \<longrightarrow>
            format_opt (snd (SetFormat driver w requested)) = format_opt w
            \<and> wrapper_buffer_size (snd (SetFormat driver w requested)) = wrapper_buffer_size w)
      \<and> (fst (SetFormat driver w requested) = 0 \<longrightarrow>
            format_opt (snd (SetFormat driver w requested))
              = Some (StreamFormat_of_v4l2_format (snd (driver (FillFormatRequest requested))))
            \<and> wrapper_buffer_size (snd (SetFormat driver w requested))
              = pix_sizeimage (snd (driver (FillFormatRequest requested)))))"
  by (auto simp: SetFormat_def ioctlLocked_S_FMT_def EINVAL_def ENODEV_def
      split: prod.splits option.splits)

theorem SetFormat_spec_witness:
  "SetFormat (\<lambda>data. (0, data\<lparr>pix_sizeimage := 614400\<rparr>))
      \<lparr>device_fd = 3,
        format_opt = Some \<lparr>sf_type = 1, sf_v4l2_pixel_format = V4L2_PIX_FMT_YUYV,
          sf_width = 640, sf_height = 480\<rparr>,
        wrapper_buffer_size = 614400, commands = []\<rparr>
      \<lparr>sf_type = 1, sf_v4l2_pixel_format = V4L2_PIX_FMT_YUYV, sf_width = 640, sf_height = 480\<rparr>
    = (0, \<lparr>device_fd = 3,
        format_opt = Some \<lparr>sf_type = 1, sf_v4l2_pixel_format = V4L2_PIX_FMT_YUYV,
          sf_width = 640, sf_height = 480\<rparr>,
        wrapper_buffer_size = 614400, commands = []\<rparr>)
   \<and> SetFormat (\<lambda>data. (0, data\<lparr>pix_sizeimage := 614400\<rparr>))
      \<lparr>device_fd = - 1, format_opt = None, wrapper_buffer_size = 0, commands = []\<rparr>
      \<lparr>sf_type = 1, sf_v4l2_pixel_format = V4L2_PIX_FMT_YUYV, sf_width = 640, sf_height = 480\<rparr>
    = (- ENODEV,
       \<lparr>device_fd = - 1, format_opt = None, wrapper_buffer_size = 0, commands = []\<rparr>)
   \<and> fst (SetFormat (\<lambda>data. (0, data\<lparr>pix_sizeimage := 614400\<rparr>))
      \<lparr>device_fd = 3, format_opt = None, wrapper_buffer_size = 0, commands = []\<rparr>
      \<lparr>sf_type = 1, sf_v4l2_pixel_format = V4L2_PIX_FMT_YUYV, sf_width = 640, sf_height = 480\<rparr>)
    = 0
   \<and> format_opt (snd (SetFormat (\<lambda>data. (0, data\<lparr>pix_sizeimage := 614400\<rparr>))
      \<lparr>device_fd = 3, format_opt = None, wrapper_buffer_size = 0, commands = []\<rparr>
      \<lparr>sf_type = 1, sf_v4l2_pixel_format = V4L2_PIX_FMT_YUYV, sf_width = 640,
        sf_height = 480\<rparr>))
    = Some \<lparr>sf_type = 1, sf_v4l2_pixel_format = V4L2_PIX_FMT_YUYV, sf_width = 640,
        sf_height = 480\<rparr>
   \<and> fst (SetFormat (\<lambda>data. (0, data\<lparr>pix_width := 320, pix_height := 240\<rparr>))
      \<lparr>device_fd = 3, format_opt = None, wrapper_buffer_size = 0, commands = []\<rparr>
      \<lparr>sf_type = 1, sf_v4l2_pixel_format = V4L2_PIX_FMT_YUYV, sf_width = 640, sf_height = 480\<rparr>)
    = - EINVAL"
  using
    SetFormat_spec [of
      "\<lparr>device_fd = 3,
        format_opt = Some \<lparr>sf_type = 1, sf_v4l2_pixel_format = V4L2_PIX_FMT_YUYV,
          sf_width = 640, sf_height = 480\<rparr>,
        wrapper_buffer_size = 614400, commands = []\<rparr>"
      "\<lparr>sf_type = 1, sf_v4l2_pixel_format = V4L2_PIX_FMT_YUYV, sf_width = 640, sf_height = 480\<rparr>"
      "\<lparr>sf_type = 1, sf_v4l2_pixel_format = V4L2_PIX_FMT_YUYV, sf_width = 640, sf_height = 480\<rparr>"
      "\<lambda>data. (0, data\<lparr>pix_sizeimage := 614400\<rparr>)"]
    SetFormat_spec [of
      "\<lparr>device_fd = - 1, format_opt = None, wrapper_buffer_size = 0, commands = []\<rparr>"
      "\<lparr>sf_type = 1, sf_v4l2_pixel_format = V4L2_PIX_FMT_YUYV, sf_width = 640, sf_height = 480\<rparr>"
      "\<lparr>sf_type = 1, sf_v4l2_pixel_format = V4L2_PIX_FMT_YUYV, sf_width = 640, sf_height = 480\<rparr>"
      "\<lambda>data. (0, data\<lparr>pix_sizeimage := 614400\<rparr>)"]
    SetFormat_spec [of
      "\<lparr>device_fd = 3, format_opt = None, wrapper_buffer_size = 0, commands = []\<rparr>"
      "\<lparr>sf_type = 1, sf_v4l2_pixel_format = V4L2_PIX_FMT_YUYV, sf_width = 640, sf_height = 480\<rparr>"
      "\<lparr>sf_type = 1, sf_v4l2_pixel_format = V4L2_PIX_FMT_YUYV, sf_width = 640, sf_height = 480\<rparr>"
      "\<lambda>data. (0, data\<lparr>pix_sizeimage := 614400\<rparr>)"]
    SetFormat_spec [of
      "\<lparr>device_fd = 3, format_opt = None, wrapper_buffer_size = 0, commands = []\<rparr>"
      "\<lparr>sf_type = 1, sf_v4l2_pixel_format = V4L2_PIX_FMT_YUYV, sf_width = 640, sf_height = 480\<rparr>"
      "\<lparr>sf_type = 1, sf_v4l2_pixel_format = V4L2_PIX_FMT_YUYV, sf_width = 640, sf_height = 480\<rparr>"
      "\<lambda>data. (0, data\<lparr>pix_width := 320, pix_height := 240\<rparr>)"]
  by (simp add: StreamFormat_eq_def Connected_def FillFormatRequest_def
      StreamFormat_of_v4l2_format_def)

text \<open>
  C5 as stated fails: a connected device that rejects \<open>VIDIOC_S_FMT\<close> and leaves the
  structure untouched reports the very fourcc, width and height that were requested,
  yet \<open>SetFormat\<close> fails with \<open>-ENODEV\<close>.
\<close>

theorem SetFormat_fails_although_format_reported_as_requested:
  "fst (SetFormat (\<lambda>data. (- 1, data))
          \<lparr>device_fd = 3, format_opt = None, wrapper_buffer_size = 0, commands = []\<rparr>
          \<lparr>sf_type = 1, sf_v4l2_pixel_format = V4L2_PIX_FMT_YUYV, sf_width = 640,
            sf_height = 480\<rparr>) = - ENODEV
   \<and> pix_pixelformat (snd ((\<lambda>data. (- 1 :: int, data))
         (FillFormatRequest \<lparr>sf_type = 1, sf_v4l2_pixel_format = V4L2_PIX_FMT_YUYV,
            sf_width = 640, sf_height = 480\<rparr>))) = V4L2_PIX_FMT_YUYV
   \<and> pix_width (snd ((\<lambda>data. (- 1 :: int, data))
         (FillFormatRequest \<lparr>sf_type = 1, sf_v4l2_pixel_format = V4L2_PIX_FMT_YUYV,
            sf_width = 640, sf_height = 480\<rparr>))) = 640
   \<and> pix_height (snd ((\<lambda>data. (- 1 :: int, data))
         (FillFormatRequest \<lparr>sf_type = 1, sf_v4l2_pixel_format = V4L2_PIX_FMT_YUYV,
            sf_width = 640, sf_height = 480\<rparr>))) = 480"
  by (simp add: SetFormat_def ioctlLocked_S_FMT_def Connected_def FillFormatRequest_def)

section \<open>Theorems about the device session\<close>

text \<open>
  C8. While the tracker holds at least one capture, \<open>configureStreamsVerification\<close>
  returns \<open>INTERNAL_ERROR\<close>, and \<open>configureStreams\<close> hands that status to its callback
  and returns with the session (streams, driver connection and all) exactly as it was,
  whatever the later stages would do. Conversely, a call of \<open>configureStreams\<close> that
  reports \<open>OK\<close> started from a tracker with no capture left: the tracked captures had
  completed or been flushed before.
\<close>

theorem configureStreams_rejected_while_capture_tracked:
  "(hasActiveCapture (camera_tracker s) \<longrightarrow>
      configureStreamsVerification s requested_configuration = INTERNAL_ERROR
      \<and> configureStreams stages s requested_configuration = ((INTERNAL_ERROR, []), s))
   \<and> (fst (fst (configureStreams stages s requested_configuration)) = OK \<longrightarrow>
      capture_list (camera_tracker s) = [])"
proof -
  have rejected: "configureStreamsVerification s requested_configuration = INTERNAL_ERROR"
    if "hasActiveCapture (camera_tracker s)"
    using that by (simp add: configureStreamsVerification_def)
  have gate: "configureStreams stages s requested_configuration = ((INTERNAL_ERROR, []), s)"
    if "hasActiveCapture (camera_tracker s)"
    using rejected [OF that] by (simp add: configureStreams_def)
  have "capture_list (camera_tracker s) = []"
    if "fst (fst (configureStreams stages s requested_configuration)) = OK"
  proof (rule ccontr)
    assume "capture_list (camera_tracker s) \<noteq> []"
    then have "hasActiveCapture (camera_tracker s)"
      by (simp add: hasActiveCapture_def)
    with gate that show False by simp
  qed
  with rejected gate show ?thesis by blast
qed

theorem configureStreams_rejected_while_capture_tracked_witness:
  "hasActiveCapture (camera_tracker
      \<lparr>closed = False, disconnected = False, init_fail = False, started = True,
        previous_settings = [],
        v4l2_wrapper = \<lparr>device_fd = 3, format_opt = None, wrapper_buffer_size = 0,
          commands = []\<rparr>,
        camera_tracker = \<lparr>tracked_streams = Map.empty, stream_buffers = Map.empty,
          capture_list = [\<lparr>tc_id = 7,
            output_buffers = [InvalidStreamBuffer\<lparr>streamId := 0\<rparr>,
                              InvalidStreamBuffer\<lparr>streamId := 1\<rparr>],
            input_buffer = InvalidStreamBuffer, output_results = [],
            input_result = InvalidStreamBuffer\<rparr>],
          tracked_settings = Map.empty\<rparr>,
        callback_log = []\<rparr>)
   \<and> configureStreams
      \<lparr>configureStreamClean = \<lambda>s c. (OK, s), configureDriverStream = \<lambda>s c. (OK, s),
        configureStreamResult = \<lambda>s c. ((OK, []), s)\<rparr>
      \<lparr>closed = False, disconnected = False, init_fail = False, started = True,
        previous_settings = [],
        v4l2_wrapper = \<lparr>device_fd = 3, format_opt = None, wrapper_buffer_size = 0,
          commands = []\<rparr>,
        camera_tracker = \<lparr>tracked_streams = Map.empty, stream_buffers = Map.empty,
          capture_list = [\<lparr>tc_id = 7,
            output_buffers = [InvalidStreamBuffer\<lparr>streamId := 0\<rparr>,
                              InvalidStreamBuffer\<lparr>streamId := 1\<rparr>],
            input_buffer = InvalidStreamBuffer, output_results = [],
            input_result = InvalidStreamBuffer\<rparr>],
          tracked_settings = Map.empty\<rparr>,
        callback_log = []\<rparr>
      \<lparr>streams = [\<lparr>stream_id = 0, streamType = OUTPUT, stream_width = 640,
          stream_height = 480, stream_format = 0x22, stream_usage = 0, dataSpace = 0,
          rotation = ROTATION_0\<rparr>], operationMode = 0\<rparr>
     = ((INTERNAL_ERROR, []),
      \<lparr>closed = False, disconnected = False, init_fail = False, started = True,
        previous_settings = [],
        v4l2_wrapper = \<lparr>device_fd = 3, format_opt = None, wrapper_buffer_size = 0,
          commands = []\<rparr>,
        camera_tracker = \<lparr>tracked_streams = Map.empty, stream_buffers = Map.empty,
          capture_list = [\<lparr>tc_id = 7,
            output_buffers = [InvalidStreamBuffer\<lparr>streamId := 0\<rparr>,
                              InvalidStreamBuffer\<lparr>streamId := 1\<rparr>],
            input_buffer = InvalidStreamBuffer, output_results = [],
            input_result = InvalidStreamBuffer\<rparr>],
          tracked_settings = Map.empty\<rparr>,
        callback_log = []\<rparr>)
   \<and> fst (fst (configureStreams
      \<lparr>configureStreamClean = \<lambda>s c. (OK, s), configureDriverStream = \<lambda>s c. (OK, s),
        configureStreamResult = \<lambda>s c. ((OK, []), s)\<rparr>
      \<lparr>closed = False, disconnected = False, init_fail = False, started = False,
        previous_settings = [],
        v4l2_wrapper = \<lparr>device_fd = 3, format_opt = None, wrapper_buffer_size = 0,
          commands = []\<rparr>,
        camera_tracker = \<lparr>tracked_streams = Map.empty, stream_buffers = Map.empty,
          capture_list = [], tracked_settings = Map.empty\<rparr>,
        callback_log = []\<rparr>
      \<lparr>streams = [\<lparr>stream_id = 0, streamType = OUTPUT, stream_width = 640,
          stream_height = 480, stream_format = 0x22, stream_usage = 0, dataSpace = 0,
          rotation = ROTATION_0\<rparr>], operationMode = 0\<rparr>)) = OK
   \<and> capture_list (camera_tracker
      \<lparr>closed = False, disconnected = False, init_fail = False, started = False,
        previous_settings = [],
        v4l2_wrapper = \<lparr>device_fd = 3, format_opt = None, wrapper_buffer_size = 0,
          commands = []\<rparr>,
        camera_tracker = \<lparr>tracked_streams = Map.empty, stream_buffers = Map.empty,
          capture_list = [], tracked_settings = Map.empty\<rparr>,
        callback_log = []\<rparr>) = []"
proof -
  let ?busy = "\<lparr>closed = False, disconnected = False, init_fail = False, started = True,
        previous_settings = [],
        v4l2_wrapper = \<lparr>device_fd = 3, format_opt = None, wrapper_buffer_size = 0,
          commands = []\<rparr>,
        camera_tracker = \<lparr>tracked_streams = Map.empty, stream_buffers = Map.empty,
          capture_list = [\<lparr>tc_id = 7,
            output_buffers = [InvalidStreamBuffer\<lparr>streamId := 0\<rparr>,
                              InvalidStreamBuffer\<lparr>streamId := 1\<rparr>],
            input_buffer = InvalidStreamBuffer, output_results = [],
            input_result = InvalidStreamBuffer\<rparr>],
          tracked_settings = Map.empty\<rparr>,
        callback_log = []\<rparr>"
  let ?idle = "\<lparr>closed = False, disconnected = False, init_fail = False, started = False,
        previous_settings = [],
        v4l2_wrapper = \<lparr>device_fd = 3, format_opt = None, wrapper_buffer_size = 0,
          commands = []\<rparr>,
        camera_tracker = \<lparr>tracked_streams = Map.empty, stream_buffers = Map.empty,
          capture_list = [], tracked_settings = Map.empty\<rparr>,
        callback_log = []\<rparr>"
  let ?stages = "\<lparr>configureStreamClean = \<lambda>s c. (OK, s), configureDriverStream = \<lambda>s c. (OK, s),
        configureStreamResult = \<lambda>s c. ((OK, []), s)\<rparr>"
  let ?cfg = "\<lparr>streams = [\<lparr>stream_id = 0, streamType = OUTPUT, stream_width = 640,
          stream_height = 480, stream_format = 0x22, stream_usage = 0, dataSpace = 0,
          rotation = ROTATION_0\<rparr>], operationMode = 0\<rparr>"
  have active: "hasActiveCapture (camera_tracker ?busy)"
    by (simp add: hasActiveCapture_def)
  have ok: "fst (fst (configureStreams ?stages ?idle ?cfg)) = OK"
    by (simp add: configureStreams_def configureStreamsVerification_def initStatus_def
        hasActiveCapture_def getStream_def)
  from configureStreams_rejected_while_capture_tracked [of ?busy ?cfg ?stages] active
  have rejected: "configureStreams ?stages ?busy ?cfg = ((INTERNAL_ERROR, []), ?busy)"
    by blast
  from configureStreams_rejected_while_capture_tracked [of ?idle ?cfg ?stages] ok
  have empty: "capture_list (camera_tracker ?idle) = []"
    by blast
  from active rejected ok empty show ?thesis
    by blast
qed

subsection \<open>Facts about the flush loop\<close>

lemma word_sint_back: "word_of_int (sint (x :: 32 word)) = x"
  by simp

lemma popNextOutputBuffer_head:
  assumes "capture_list t = c # cs" and "output_buffers c = b # bs"
  shows "popNextOutputBuffer t
    = (b, sint (tc_id c), t\<lparr>capture_list := c\<lparr>output_buffers := bs\<rparr> # cs\<rparr>)"
  using assms by (simp add: popNextOutputBuffer_def)

lemma processCaptureResult_pending:
  assumes "capture_list (camera_tracker s) = c # cs"
    and "output_buffers c \<noteq> []"
  shows "processCaptureResult env s (tc_id c) sb
    = Inr (OK, s\<lparr>camera_tracker := (camera_tracker s)
          \<lparr>capture_list := c\<lparr>output_results := output_results c @ [sb]\<rparr> # cs\<rparr>\<rparr>)"
  using assms
  by (simp add: processCaptureResult_def saveOutputBuffer_def isCaptureCompleted_def Let_def)

lemma processCaptureResult_complete:
  assumes "capture_list (camera_tracker s) = c # cs"
    and "output_buffers c = []" and "streamId (input_buffer c) = - 1"
    and "tracked_settings (camera_tracker s) (tc_id c) = Some ts"
    and "ts_settings ts = Some m"
  shows "\<exists>ts' res. processCaptureResult env s (tc_id c) sb
    = Inr (OK, s\<lparr>camera_tracker := (camera_tracker s)
                \<lparr>capture_list := cs,
                 tracked_settings := (tracked_settings (camera_tracker s))(tc_id c := None)\<rparr>,
              callback_log := callback_log s
                @ [notify_shutter (tc_id c) ts', processCaptureResult_call res]\<rparr>)"
  using assms
  by (simp add: processCaptureResult_def saveOutputBuffer_def isCaptureCompleted_def Let_def
      getCaptureSettings_def popInputResult_def popOutputResults_def untrackCapture_def)
    blast


lemma flush_loop_step:
  assumes list: "capture_list (camera_tracker s) = c # cs"
    and ready: "capture_ready (camera_tracker s) c"
    and fresh: "tc_id c \<notin> set (map tc_id cs)"
  shows "\<exists>s1 evs. flush_loop env s = flush_loop env s1
     \<and> callback_log s1 = callback_log s @ evs
     \<and> length (filter is_buffer_error evs) = 1
     \<and> pending_outputs (camera_tracker s) = Suc (pending_outputs (camera_tracker s1))
     \<and> (output_buffers c = [hd (output_buffers c)] \<longrightarrow>
           capture_list (camera_tracker s1) = cs
           \<and> tracked_settings (camera_tracker s1)
               = (tracked_settings (camera_tracker s))(tc_id c := None))
     \<and> (output_buffers c \<noteq> [hd (output_buffers c)] \<longrightarrow>
           (\<exists>c'. capture_list (camera_tracker s1) = c' # cs \<and> tc_id c' = tc_id c
              \<and> output_buffers c' = tl (output_buffers c)
              \<and> input_buffer c' = input_buffer c)
           \<and> tracked_settings (camera_tracker s1) = tracked_settings (camera_tracker s))"
proof -
  from ready obtain b bs ts m where
    out: "output_buffers c = b # bs" and inp: "streamId (input_buffer c) = - 1"
    and nonneg: "0 \<le> sint (tc_id c)"
    and ts: "tracked_settings (camera_tracker s) (tc_id c) = Some ts" "ts_settings ts = Some m"
    by (auto simp: capture_ready_def neq_Nil_conv split: option.splits)
  let ?t1 = "(camera_tracker s)\<lparr>capture_list := c\<lparr>output_buffers := bs\<rparr> # cs\<rparr>"
  let ?s0 = "s\<lparr>camera_tracker := ?t1\<rparr>"
  let ?s1 = "?s0\<lparr>callback_log := callback_log s
                   @ [notify_error (tc_id c) (streamId b) ERROR_BUFFER]\<rparr>"
  let ?failed = "b\<lparr>status := BufferStatus_ERROR, releaseFence := acquireFence b,
                    acquireFence := None\<rparr>"
  have active: "hasActiveCapture (camera_tracker s)"
    using list by (simp add: hasActiveCapture_def)
  have pop: "popNextOutputBuffer (camera_tracker s) = (b, sint (tc_id c), ?t1)"
    using list out by (rule popNextOutputBuffer_head)
  have unfold: "flush_loop env s =
      (case processCaptureBufferError_ERROR_BUFFER env ?s0 (tc_id c) b of
         Inl f \<Rightarrow> Some (Inl f) | Inr (st, s2) \<Rightarrow> flush_loop env s2)"
    by (subst flush_loop.simps) (simp add: active pop nonneg)
  have err: "processCaptureBufferError_ERROR_BUFFER env ?s0 (tc_id c) b =
      (case processCaptureResult env ?s1 (tc_id c) ?failed of
         Inl f \<Rightarrow> Inl f | Inr (st, s2) \<Rightarrow> Inr (OK, s2))"
    by (simp add: processCaptureBufferError_ERROR_BUFFER_def Let_def)
  have l1: "capture_list (camera_tracker ?s1) = c\<lparr>output_buffers := bs\<rparr> # cs"
    by simp
  have pend: "pending_outputs (camera_tracker s)
      = Suc (length bs + sum_list (map (\<lambda>capture. length (output_buffers capture)) cs))"
    using list out by (simp add: pending_outputs_def)
  show ?thesis
  proof (cases "bs = []")
    case False
    let ?s2 = "?s1\<lparr>camera_tracker := (camera_tracker ?s1)
          \<lparr>capture_list := (c\<lparr>output_buffers := bs\<rparr>)
              \<lparr>output_results := output_results (c\<lparr>output_buffers := bs\<rparr>) @ [?failed]\<rparr>
            # cs\<rparr>\<rparr>"
    have "processCaptureResult env ?s1 (tc_id (c\<lparr>output_buffers := bs\<rparr>)) ?failed
        = Inr (OK, ?s2)"
      using False by (intro processCaptureResult_pending [OF l1]) simp
    then have "flush_loop env s = flush_loop env ?s2"
      by (simp add: unfold err)
    moreover have "callback_log ?s2 = callback_log s
        @ [notify_error (tc_id c) (streamId b) ERROR_BUFFER]"
      by simp
    moreover have "pending_outputs (camera_tracker s) = Suc (pending_outputs (camera_tracker ?s2))"
      by (simp only: pend) (simp add: pending_outputs_def)
    moreover have "output_buffers c \<noteq> [hd (output_buffers c)]"
      using False out by simp
    moreover have "\<exists>c'. capture_list (camera_tracker ?s2) = c' # cs \<and> tc_id c' = tc_id c
              \<and> output_buffers c' = tl (output_buffers c)
              \<and> input_buffer c' = input_buffer c"
      using out by simp
    moreover have "tracked_settings (camera_tracker ?s2) = tracked_settings (camera_tracker s)"
      by simp
    ultimately show ?thesis
      by (intro exI [of _ ?s2] exI [of _ "[notify_error (tc_id c) (streamId b) ERROR_BUFFER]"])
        simp
  next
    case True
    have ts1: "tracked_settings (camera_tracker ?s1) (tc_id (c\<lparr>output_buffers := bs\<rparr>)) = Some ts"
      using ts by simp
    from processCaptureResult_complete [OF l1 _ _ ts1 ts(2), of env ?failed] True inp
    obtain ts' res where
      pcr: "processCaptureResult env ?s1 (tc_id (c\<lparr>output_buffers := bs\<rparr>)) ?failed
        = Inr (OK, ?s1\<lparr>camera_tracker := (camera_tracker ?s1)
                \<lparr>capture_list := cs,
                 tracked_settings := (tracked_settings (camera_tracker ?s1))
                    (tc_id (c\<lparr>output_buffers := bs\<rparr>) := None)\<rparr>,
              callback_log := callback_log ?s1
                @ [notify_shutter (tc_id (c\<lparr>output_buffers := bs\<rparr>)) ts',
                   processCaptureResult_call res]\<rparr>)"
      by auto
    let ?s2 = "?s1\<lparr>camera_tracker := (camera_tracker ?s1)
                \<lparr>capture_list := cs,
                 tracked_settings := (tracked_settings (camera_tracker ?s1))
                    (tc_id (c\<lparr>output_buffers := bs\<rparr>) := None)\<rparr>,
              callback_log := callback_log ?s1
                @ [notify_shutter (tc_id (c\<lparr>output_buffers := bs\<rparr>)) ts',
                   processCaptureResult_call res]\<rparr>"
    let ?evs = "[notify_error (tc_id c) (streamId b) ERROR_BUFFER,
                 notify_shutter (tc_id c) ts', processCaptureResult_call res]"
    have "flush_loop env s = flush_loop env ?s2"
      using pcr by (simp add: unfold err)
    moreover have "callback_log ?s2 = callback_log s @ ?evs"
      by simp
    moreover have "pending_outputs (camera_tracker s) = Suc (pending_outputs (camera_tracker ?s2))"
      using True by (simp only: pend) (simp add: pending_outputs_def)
    moreover have "output_buffers c = [hd (output_buffers c)]"
      using True out by simp
    moreover have "capture_list (camera_tracker ?s2) = cs"
      by simp
    moreover have "tracked_settings (camera_tracker ?s2)
        = (tracked_settings (camera_tracker s))(tc_id c := None)"
      by simp
    ultimately show ?thesis
      by (intro exI [of _ ?s2] exI [of _ ?evs]) simp
  qed
qed



lemma capture_ready_cong:
  "tracked_settings t (tc_id c) = tracked_settings t' (tc_id c) \<Longrightarrow>
     capture_ready t c = capture_ready t' c"
  by (simp add: capture_ready_def)

lemma flush_ready_Nil_iff:
  assumes "flush_ready t"
  shows "pending_outputs t = 0 \<longleftrightarrow> capture_list t = []"
proof (cases "capture_list t")
  case Nil
  then show ?thesis by (simp add: pending_outputs_def)
next
  case (Cons c cs)
  with assms have "output_buffers c \<noteq> []"
    by (simp add: flush_ready_def capture_ready_def)
  with Cons show ?thesis by (simp add: pending_outputs_def)
qed

lemma flush_loop_drains:
  "pending_outputs (camera_tracker s) = n \<Longrightarrow> flush_ready (camera_tracker s) \<Longrightarrow>
     \<exists>s' evs. flush_loop env s = Some (Inr s') \<and> capture_list (camera_tracker s') = []
       \<and> callback_log s' = callback_log s @ evs
       \<and> length (filter is_buffer_error evs) = n"
proof (induction n arbitrary: s)
  case 0
  then have "capture_list (camera_tracker s) = []"
    using flush_ready_Nil_iff by blast
  then have "flush_loop env s = Some (Inr s)"
    by (subst flush_loop.simps) (simp add: hasActiveCapture_def)
  with \<open>capture_list (camera_tracker s) = []\<close> show ?case
    by (intro exI [of _ s] exI [of _ "[]"]) simp
next
  case (Suc n)
  let ?t = "camera_tracker s"
  from Suc.prems obtain c cs where list: "capture_list ?t = c # cs"
    using flush_ready_Nil_iff [of ?t] by (cases "capture_list ?t") auto
  from Suc.prems(2) list have ready: "capture_ready ?t c"
    and rest: "list_all (capture_ready ?t) cs"
    and fresh: "tc_id c \<notin> set (map tc_id cs)" and dist: "distinct (map tc_id cs)"
    by (simp_all add: flush_ready_def)
  from flush_loop_step [OF list ready fresh, of env] obtain s1 evs1 where
    eq: "flush_loop env s = flush_loop env s1"
    and log: "callback_log s1 = callback_log s @ evs1"
    and one: "length (filter is_buffer_error evs1) = 1"
    and pend: "pending_outputs ?t = Suc (pending_outputs (camera_tracker s1))"
    and last: "output_buffers c = [hd (output_buffers c)] \<longrightarrow>
           capture_list (camera_tracker s1) = cs
           \<and> tracked_settings (camera_tracker s1) = (tracked_settings ?t)(tc_id c := None)"
    and more: "output_buffers c \<noteq> [hd (output_buffers c)] \<longrightarrow>
           (\<exists>c'. capture_list (camera_tracker s1) = c' # cs \<and> tc_id c' = tc_id c
              \<and> output_buffers c' = tl (output_buffers c)
              \<and> input_buffer c' = input_buffer c)
           \<and> tracked_settings (camera_tracker s1) = tracked_settings ?t"
    by blast
  have ready1: "flush_ready (camera_tracker s1)"
  proof (cases "output_buffers c = [hd (output_buffers c)]")
    case True
    with last have l: "capture_list (camera_tracker s1) = cs"
      and ts: "tracked_settings (camera_tracker s1) = (tracked_settings ?t)(tc_id c := None)"
      by simp_all
    have "capture_ready (camera_tracker s1) x" if "x \<in> set cs" for x
    proof -
      from that have "tc_id x \<in> set (map tc_id cs)" by simp
      with fresh have "tc_id x \<noteq> tc_id c" by metis
      then have "tracked_settings (camera_tracker s1) (tc_id x) = tracked_settings ?t (tc_id x)"
        by (simp add: ts)
      moreover from that rest have "capture_ready ?t x" by (simp add: list_all_iff)
      ultimately show ?thesis using capture_ready_cong by blast
    qed
    then show ?thesis using l dist by (simp add: flush_ready_def list_all_iff)
  next
    case False
    with more obtain c' where l: "capture_list (camera_tracker s1) = c' # cs"
      and c': "tc_id c' = tc_id c" "output_buffers c' = tl (output_buffers c)"
        "input_buffer c' = input_buffer c"
      and ts: "tracked_settings (camera_tracker s1) = tracked_settings ?t"
      by blast
    from ready False have "tl (output_buffers c) \<noteq> []"
      by (cases "output_buffers c") (auto simp: capture_ready_def)
    with ready c' ts have "capture_ready (camera_tracker s1) c'"
      by (simp add: capture_ready_def)
    moreover have "capture_ready (camera_tracker s1) x" if "x \<in> set cs" for x
      using that rest ts by (simp add: list_all_iff capture_ready_def)
    ultimately show ?thesis
      using l c'(1) fresh dist by (simp add: flush_ready_def list_all_iff)
  qed
  from pend Suc.prems(1) have "pending_outputs (camera_tracker s1) = n" by simp
  from Suc.IH [OF this ready1] obtain s' evs where
    "flush_loop env s1 = Some (Inr s')" "capture_list (camera_tracker s') = []"
    "callback_log s' = callback_log s1 @ evs" "length (filter is_buffer_error evs) = n"
    by blast
  with eq log one show ?case
    by (intro exI [of _ s'] exI [of _ "evs1 @ evs"]) simp
qed

lemma flush_loop_stuck:
  assumes "hasActiveCapture (camera_tracker s)"
    and "popNextOutputBuffer (camera_tracker s) = (sb, - 1, camera_tracker s)"
  shows "flush_loop env s = None"
proof (rule ccontr)
  define stuck where "stuck = (\<lambda>s :: Session. hasActiveCapture (camera_tracker s)
      \<and> (\<exists>sb. popNextOutputBuffer (camera_tracker s) = (sb, - 1, camera_tracker s)))"
  assume "flush_loop env s \<noteq> None"
  then obtain y where "flush_loop env s = Some y" by blast
  then have "\<not> stuck s"
  proof (rule flush_loop.raw_induct [where P = "\<lambda>e s y. \<not> stuck s", rotated])
    fix loop :: "session_env \<Rightarrow> Session \<Rightarrow> (fault + Session) option"
    fix e :: session_env and s1 :: Session and y1 :: "fault + Session"
    assume IH: "\<And>a b y. loop a b = Some y \<Longrightarrow> \<not> stuck b"
    assume eq: "(if hasActiveCapture (camera_tracker s1)
      then case popNextOutputBuffer (camera_tracker s1) of
           (stream_buffer, capture_id, t1) \<Rightarrow>
             if 0 \<le> capture_id
             then case processCaptureBufferError_ERROR_BUFFER e
                        (s1\<lparr>camera_tracker := t1\<rparr>) (word_of_int capture_id)
                        stream_buffer of
                  Inl f \<Rightarrow> Some (Inl f) | Inr (st, s2) \<Rightarrow> loop e s2
             else loop e (s1\<lparr>camera_tracker := t1\<rparr>)
      else Some (Inr s1)) = Some y1"
    show "\<not> stuck s1"
    proof
      assume st: "stuck s1"
      then obtain sb1 where "hasActiveCapture (camera_tracker s1)"
        "popNextOutputBuffer (camera_tracker s1) = (sb1, - 1, camera_tracker s1)"
        by (auto simp: stuck_def)
      with eq have "loop e s1 = Some y1" by simp
      from IH [OF this] st show False by blast
    qed
  qed
  with assms show False by (auto simp: stuck_def)
qed

subsection \<open>Flush\<close>

text \<open>
  C3, as amended. Let the session be usable (\<open>initStatus\<close> is \<open>OK\<close>) and let the tracker
  be in a state that request submission produces: every tracked capture has at least
  one pending output buffer, no pending input buffer, an id that is not negative as an
  \<open>int\<close> and stored settings, and no id is tracked twice. If the tracker holds \<open>M\<close>
  pending output buffers, then \<open>flush\<close> returns \<open>OK\<close>, has notified exactly \<open>M\<close> buffer
  errors through the callback, one per pending output, and leaves the tracker with no
  tracked capture and no pending output.
\<close>

theorem flush_drains_pending_outputs:
  assumes "initStatus s = OK" and "flush_ready (camera_tracker s)"
  shows "\<exists>s' evs. flush env s = Some (Inr (OK, s'))
     \<and> capture_list (camera_tracker s') = []
     \<and> pending_outputs (camera_tracker s') = 0
     \<and> callback_log s' = callback_log s @ evs
     \<and> length (filter is_buffer_error evs) = pending_outputs (camera_tracker s)"
proof -
  from flush_loop_drains [OF refl assms(2), of env] obtain s1 evs where
    loop: "flush_loop env s = Some (Inr s1)" and empty: "capture_list (camera_tracker s1) = []"
    and log: "callback_log s1 = callback_log s @ evs"
    and count: "length (filter is_buffer_error evs) = pending_outputs (camera_tracker s)"
    by blast
  let ?s' = "s1\<lparr>v4l2_wrapper := snd (StreamOff (streamoff env) (v4l2_wrapper s1)),
                started := False\<rparr>"
  have "flush env s = Some (Inr (OK, ?s'))"
    using assms(1) loop by (simp add: flush_def)
  moreover have "capture_list (camera_tracker ?s') = []"
    using empty by simp
  moreover have "pending_outputs (camera_tracker ?s') = 0"
    using empty by (simp add: pending_outputs_def)
  moreover have "callback_log ?s' = callback_log s @ evs"
    using log by simp
  ultimately show ?thesis
    using count by blast
qed

theorem flush_drains_pending_outputs_witness:
  "initStatus
      \<lparr>closed = False, disconnected = False, init_fail = False, started = True,
        previous_settings = [],
        v4l2_wrapper = \<lparr>device_fd = 3, format_opt = None, wrapper_buffer_size = 0,
          commands = []\<rparr>,
        camera_tracker = \<lparr>tracked_streams = Map.empty, stream_buffers = Map.empty,
          capture_list = [\<lparr>tc_id = 1,
            output_buffers = [\<lparr>streamId = 0, bufferId = 1, buffer = None, status = BufferStatus_OK,
              acquireFence = None, releaseFence = None\<rparr>,
              \<lparr>streamId = 1, bufferId = 2, buffer = None, status = BufferStatus_OK,
              acquireFence = None, releaseFence = None\<rparr>],
            input_buffer = InvalidStreamBuffer, output_results = [],
            input_result = InvalidStreamBuffer\<rparr>,
            \<lparr>tc_id = 2,
            output_buffers = [\<lparr>streamId = 0, bufferId = 1, buffer = None, status = BufferStatus_OK,
              acquireFence = None, releaseFence = None\<rparr>],
            input_buffer = InvalidStreamBuffer, output_results = [],
            input_result = InvalidStreamBuffer\<rparr>],
          tracked_settings = [1 \<mapsto> \<lparr>ts_settings = Some [], partial_count = 1\<rparr>, 2 \<mapsto> \<lparr>ts_settings = Some [], partial_count = 1\<rparr>]\<rparr>,
        callback_log = []\<rparr> = OK
   \<and> flush_ready (camera_tracker
      \<lparr>closed = False, disconnected = False, init_fail = False, started = True,
        previous_settings = [],
        v4l2_wrapper = \<lparr>device_fd = 3, format_opt = None, wrapper_buffer_size = 0,
          commands = []\<rparr>,
        camera_tracker = \<lparr>tracked_streams = Map.empty, stream_buffers = Map.empty,
          capture_list = [\<lparr>tc_id = 1,
            output_buffers = [\<lparr>streamId = 0, bufferId = 1, buffer = None, status = BufferStatus_OK,
              acquireFence = None, releaseFence = None\<rparr>,
              \<lparr>streamId = 1, bufferId = 2, buffer = None, status = BufferStatus_OK,
              acquireFence = None, releaseFence = None\<rparr>],
            input_buffer = InvalidStreamBuffer, output_results = [],
            input_result = InvalidStreamBuffer\<rparr>,
            \<lparr>tc_id = 2,
            output_buffers = [\<lparr>streamId = 0, bufferId = 1, buffer = None, status = BufferStatus_OK,
              acquireFence = None, releaseFence = None\<rparr>],
            input_buffer = InvalidStreamBuffer, output_results = [],
            input_result = InvalidStreamBuffer\<rparr>],
          tracked_settings = [1 \<mapsto> \<lparr>ts_settings = Some [], partial_count = 1\<rparr>, 2 \<mapsto> \<lparr>ts_settings = Some [], partial_count = 1\<rparr>]\<rparr>,
        callback_log = []\<rparr>)
   \<and> pending_outputs (camera_tracker
      \<lparr>closed = False, disconnected = False, init_fail = False, started = True,
        previous_settings = [],
        v4l2_wrapper = \<lparr>device_fd = 3, format_opt = None, wrapper_buffer_size = 0,
          commands = []\<rparr>,
        camera_tracker = \<lparr>tracked_streams = Map.empty, stream_buffers = Map.empty,
          capture_list = [\<lparr>tc_id = 1,
            output_buffers = [\<lparr>streamId = 0, bufferId = 1, buffer = None, status = BufferStatus_OK,
              acquireFence = None, releaseFence = None\<rparr>,
              \<lparr>streamId = 1, bufferId = 2, buffer = None, status = BufferStatus_OK,
              acquireFence = None, releaseFence = None\<rparr>],
            input_buffer = InvalidStreamBuffer, output_results = [],
            input_result = InvalidStreamBuffer\<rparr>,
            \<lparr>tc_id = 2,
            output_buffers = [\<lparr>streamId = 0, bufferId = 1, buffer = None, status = BufferStatus_OK,
              acquireFence = None, releaseFence = None\<rparr>],
            input_buffer = InvalidStreamBuffer, output_results = [],
            input_result = InvalidStreamBuffer\<rparr>],
          tracked_settings = [1 \<mapsto> \<lparr>ts_settings = Some [], partial_count = 1\<rparr>, 2 \<mapsto> \<lparr>ts_settings = Some [], partial_count = 1\<rparr>]\<rparr>,
        callback_log = []\<rparr>) = 3
   \<and> (\<exists>s' evs. flush \<lparr>fmq_write = \<lambda>m. True, sensor_timestamp = \<lambda>m. 0, streamoff = \<lambda>t. 0\<rparr>
      \<lparr>closed = False, disconnected = False, init_fail = False, started = True,
        previous_settings = [],
        v4l2_wrapper = \<lparr>device_fd = 3, format_opt = None, wrapper_buffer_size = 0,
          commands = []\<rparr>,
        camera_tracker = \<lparr>tracked_streams = Map.empty, stream_buffers = Map.empty,
          capture_list = [\<lparr>tc_id = 1,
            output_buffers = [\<lparr>streamId = 0, bufferId = 1, buffer = None, status = BufferStatus_OK,
              acquireFence = None, releaseFence = None\<rparr>,
              \<lparr>streamId = 1, bufferId = 2, buffer = None, status = BufferStatus_OK,
              acquireFence = None, releaseFence = None\<rparr>],
            input_buffer = InvalidStreamBuffer, output_results = [],
            input_result = InvalidStreamBuffer\<rparr>,
            \<lparr>tc_id = 2,
            output_buffers = [\<lparr>streamId = 0, bufferId = 1, buffer = None, status = BufferStatus_OK,
              acquireFence = None, releaseFence = None\<rparr>],
            input_buffer = InvalidStreamBuffer, output_results = [],
            input_result = InvalidStreamBuffer\<rparr>],
          tracked_settings = [1 \<mapsto> \<lparr>ts_settings = Some [], partial_count = 1\<rparr>, 2 \<mapsto> \<lparr>ts_settings = Some [], partial_count = 1\<rparr>]\<rparr>,
        callback_log = []\<rparr> = Some (Inr (OK, s'))
     \<and> capture_list (camera_tracker s') = []
     \<and> callback_log s' = [] @ evs
     \<and> length (filter is_buffer_error evs) = 3)"
proof -
  let ?s = "\<lparr>closed = False, disconnected = False, init_fail = False, started = True,
        previous_settings = [],
        v4l2_wrapper = \<lparr>device_fd = 3, format_opt = None, wrapper_buffer_size = 0,
          commands = []\<rparr>,
        camera_tracker = \<lparr>tracked_streams = Map.empty, stream_buffers = Map.empty,
          capture_list = [\<lparr>tc_id = 1,
            output_buffers = [\<lparr>streamId = 0, bufferId = 1, buffer = None, status = BufferStatus_OK,
              acquireFence = None, releaseFence = None\<rparr>,
              \<lparr>streamId = 1, bufferId = 2, buffer = None, status = BufferStatus_OK,
              acquireFence = None, releaseFence = None\<rparr>],
            input_buffer = InvalidStreamBuffer, output_results = [],
            input_result = InvalidStreamBuffer\<rparr>,
            \<lparr>tc_id = 2,
            output_buffers = [\<lparr>streamId = 0, bufferId = 1, buffer = None, status = BufferStatus_OK,
              acquireFence = None, releaseFence = None\<rparr>],
            input_buffer = InvalidStreamBuffer, output_results = [],
            input_result = InvalidStreamBuffer\<rparr>],
          tracked_settings = [1 \<mapsto> \<lparr>ts_settings = Some [], partial_count = 1\<rparr>, 2 \<mapsto> \<lparr>ts_settings = Some [], partial_count = 1\<rparr>]\<rparr>,
        callback_log = []\<rparr>"
  have init: "initStatus ?s = OK"
    by (simp add: initStatus_def)
  have ready: "flush_ready (camera_tracker ?s)"
    by (simp add: flush_ready_def capture_ready_def InvalidStreamBuffer_def)
  have pending: "pending_outputs (camera_tracker ?s) = 3"
    by (simp add: pending_outputs_def)
  from flush_drains_pending_outputs [OF init ready, of "\<lparr>fmq_write = \<lambda>m. True, sensor_timestamp = \<lambda>m. 0, streamoff = \<lambda>t. 0\<rparr>"]
  obtain s' evs where "flush \<lparr>fmq_write = \<lambda>m. True, sensor_timestamp = \<lambda>m. 0, streamoff = \<lambda>t. 0\<rparr> ?s = Some (Inr (OK, s'))"
    "capture_list (camera_tracker s') = []"
    "callback_log s' = callback_log ?s @ evs"
    "length (filter is_buffer_error evs) = pending_outputs (camera_tracker ?s)"
    by blast
  then have "\<exists>s' evs. flush \<lparr>fmq_write = \<lambda>m. True, sensor_timestamp = \<lambda>m. 0, streamoff = \<lambda>t. 0\<rparr> ?s = Some (Inr (OK, s'))
     \<and> capture_list (camera_tracker s') = []
     \<and> callback_log s' = [] @ evs
     \<and> length (filter is_buffer_error evs) = 3"
    by (simp only: pending) simp
  with init ready pending show ?thesis
    by blast
qed

text \<open>
  C3 as stated fails for a tracked request that carries an input buffer: nothing in the
  flush loop removes the pending input, so after the single pending output has been
  reported the capture is never complete, the tracker never becomes empty and the loop
  never ends.
\<close>

theorem flush_never_returns_with_pending_input:
  "initStatus
      \<lparr>closed = False, disconnected = False, init_fail = False, started = True,
        previous_settings = [],
        v4l2_wrapper = \<lparr>device_fd = 3, format_opt = None, wrapper_buffer_size = 0,
          commands = []\<rparr>,
        camera_tracker = \<lparr>tracked_streams = Map.empty, stream_buffers = Map.empty,
          capture_list = [\<lparr>tc_id = 1,
            output_buffers = [\<lparr>streamId = 0, bufferId = 1, buffer = None, status = BufferStatus_OK,
              acquireFence = None, releaseFence = None\<rparr>],
            input_buffer = \<lparr>streamId = 1, bufferId = 2, buffer = None, status = BufferStatus_OK,
              acquireFence = None, releaseFence = None\<rparr>, output_results = [],
            input_result = InvalidStreamBuffer\<rparr>],
          tracked_settings = [1 \<mapsto> \<lparr>ts_settings = Some [], partial_count = 1\<rparr>]\<rparr>,
        callback_log = []\<rparr> = OK
   \<and> pending_outputs (camera_tracker
      \<lparr>closed = False, disconnected = False, init_fail = False, started = True,
        previous_settings = [],
        v4l2_wrapper = \<lparr>device_fd = 3, format_opt = None, wrapper_buffer_size = 0,
          commands = []\<rparr>,
        camera_tracker = \<lparr>tracked_streams = Map.empty, stream_buffers = Map.empty,
          capture_list = [\<lparr>tc_id = 1,
            output_buffers = [\<lparr>streamId = 0, bufferId = 1, buffer = None, status = BufferStatus_OK,
              acquireFence = None, releaseFence = None\<rparr>],
            input_buffer = \<lparr>streamId = 1, bufferId = 2, buffer = None, status = BufferStatus_OK,
              acquireFence = None, releaseFence = None\<rparr>, output_results = [],
            input_result = InvalidStreamBuffer\<rparr>],
          tracked_settings = [1 \<mapsto> \<lparr>ts_settings = Some [], partial_count = 1\<rparr>]\<rparr>,
        callback_log = []\<rparr>) = 1
   \<and> flush \<lparr>fmq_write = \<lambda>m. True, sensor_timestamp = \<lambda>m. 0, streamoff = \<lambda>t. 0\<rparr>
      \<lparr>closed = False, disconnected = False, init_fail = False, started = True,
        previous_settings = [],
        v4l2_wrapper = \<lparr>device_fd = 3, format_opt = None, wrapper_buffer_size = 0,
          commands = []\<rparr>,
        camera_tracker = \<lparr>tracked_streams = Map.empty, stream_buffers = Map.empty,
          capture_list = [\<lparr>tc_id = 1,
            output_buffers = [\<lparr>streamId = 0, bufferId = 1, buffer = None, status = BufferStatus_OK,
              acquireFence = None, releaseFence = None\<rparr>],
            input_buffer = \<lparr>streamId = 1, bufferId = 2, buffer = None, status = BufferStatus_OK,
              acquireFence = None, releaseFence = None\<rparr>, output_results = [],
            input_result = InvalidStreamBuffer\<rparr>],
          tracked_settings = [1 \<mapsto> \<lparr>ts_settings = Some [], partial_count = 1\<rparr>]\<rparr>,
        callback_log = []\<rparr> = None"
proof -
  let ?s = "\<lparr>closed = False, disconnected = False, init_fail = False, started = True,
        previous_settings = [],
        v4l2_wrapper = \<lparr>device_fd = 3, format_opt = None, wrapper_buffer_size = 0,
          commands = []\<rparr>,
        camera_tracker = \<lparr>tracked_streams = Map.empty, stream_buffers = Map.empty,
          capture_list = [\<lparr>tc_id = 1,
            output_buffers = [\<lparr>streamId = 0, bufferId = 1, buffer = None, status = BufferStatus_OK,
              acquireFence = None, releaseFence = None\<rparr>],
            input_buffer = \<lparr>streamId = 1, bufferId = 2, buffer = None, status = BufferStatus_OK,
              acquireFence = None, releaseFence = None\<rparr>, output_results = [],
            input_result = InvalidStreamBuffer\<rparr>],
          tracked_settings = [1 \<mapsto> \<lparr>ts_settings = Some [], partial_count = 1\<rparr>]\<rparr>,
        callback_log = []\<rparr>"
  let ?env = "\<lparr>fmq_write = \<lambda>m. True, sensor_timestamp = \<lambda>m. 0, streamoff = \<lambda>t. 0\<rparr>"
  have init: "initStatus ?s = OK"
    by (simp add: initStatus_def)
  have pending: "pending_outputs (camera_tracker ?s) = 1"
    by (simp add: pending_outputs_def)
  have "\<exists>s1. flush_loop ?env ?s = flush_loop ?env s1
      \<and> hasActiveCapture (camera_tracker s1)
      \<and> popNextOutputBuffer (camera_tracker s1)
          = (InvalidStreamBuffer, - 1, camera_tracker s1)"
    apply (subst flush_loop.simps)
    apply (simp add: hasActiveCapture_def popNextOutputBuffer_def
        processCaptureBufferError_ERROR_BUFFER_def processCaptureResult_def Let_def
        saveOutputBuffer_def isCaptureCompleted_def)
    apply (intro exI conjI)
      apply (rule refl)
     apply simp_all
    done
  then obtain s1 where "flush_loop ?env ?s = flush_loop ?env s1"
    "hasActiveCapture (camera_tracker s1)"
    "popNextOutputBuffer (camera_tracker s1) = (InvalidStreamBuffer, - 1, camera_tracker s1)"
    by blast
  then have "flush_loop ?env ?s = None"
    using flush_loop_stuck [of s1 InvalidStreamBuffer ?env] by simp
  then have "flush ?env ?s = None"
    using init by (simp add: flush_def)
  with init pending show ?thesis by blast
qed

end
